theory Spec2Isabelle
  imports
    Complex_Main
    "HOL-Library.Char_ord"
    "HOL-Library.List_Lexorder"
    "HOL-Library.Product_Lexorder"
begin

section \<open>Python numbers and exceptions\<close>

text \<open>
  The analytics module computes with Python floats. The model idealises a finite float as
  a real number and keeps the three behaviours of float arithmetic that the growth
  calculation can observe: true division by zero raises \<open>ZeroDivisionError\<close>, a power
  whose magnitude exceeds the largest double raises \<open>OverflowError\<close>, and a negative
  base raised to a non-integral exponent yields, within that range, a complex number
  without raising.
  Rounding, infinities and NaN are not represented.
  \<open>DBAPIError\<close> stands for the error of the database driver when a statement cannot be
  executed.
\<close>

datatype py_exception = ZeroDivisionError | OverflowError | DBAPIError

datatype py_number = PyFloat real | PyComplex complex

definition DBL_MAX :: real where
  "DBL_MAX = (2 ^ 53 - 1) * 2 ^ 971"

definition float_truediv :: "real \<Rightarrow> real \<Rightarrow> py_exception + real" where
  "float_truediv a b = (if b = 0 then Inl ZeroDivisionError else Inr (a / b))"

definition float_pow :: "real \<Rightarrow> real \<Rightarrow> py_exception + py_number" where
  "float_pow x y =
     (if y = 0 then Inr (PyFloat 1)
      else if x = 0 then (if y < 0 then Inl ZeroDivisionError else Inr (PyFloat 0))
      else if x < 0 \<and> y \<noteq> of_int \<lfloor>y\<rfloor> then
        (if DBL_MAX < \<bar>x\<bar> powr y then Inl OverflowError
         else Inr (PyComplex (of_real (\<bar>x\<bar> powr y) * cis (pi * y))))
      else
        (let r = (if x < 0 then x powi \<lfloor>y\<rfloor> else x powr y)
         in if DBL_MAX < \<bar>r\<bar> then Inl OverflowError else Inr (PyFloat r)))"

fun number_sub :: "py_number \<Rightarrow> real \<Rightarrow> py_number" where
  "number_sub (PyFloat a) b = PyFloat (a - b)"
| "number_sub (PyComplex z) b = PyComplex (z - of_real b)"

definition raise_bind :: "'e + 'a \<Rightarrow> ('a \<Rightarrow> 'e + 'b) \<Rightarrow> 'e + 'b" where
  "raise_bind m f = (case m of Inl e \<Rightarrow> Inl e | Inr v \<Rightarrow> f v)"

section \<open>The CAGR calculator\<close>

text \<open>
  \<open>cagr_try\<close> is the body of the \<open>try\<close> block of \<open>calculate_cagr\<close>, evaluated left to
  right; \<open>cagr_except\<close> is its handler, which catches \<open>ZeroDivisionError\<close> and
  \<open>OverflowError\<close> only. The division for \<open>total_growth\<close> stands outside the block.
\<close>

definition cagr_try :: "real \<Rightarrow> real \<Rightarrow> real \<Rightarrow> py_exception + py_number" where
  "cagr_try first_price last_price years =
     raise_bind (float_truediv last_price first_price) (\<lambda>ratio.
     raise_bind (float_truediv 1 years) (\<lambda>exponent.
     raise_bind (float_pow ratio exponent) (\<lambda>p.
     Inr (number_sub p 1))))"

fun cagr_except :: "py_exception + py_number \<Rightarrow> py_exception + py_number" where
  "cagr_except (Inl ZeroDivisionError) = Inr (PyFloat 0)"
| "cagr_except (Inl OverflowError) = Inr (PyFloat 0)"
| "cagr_except (Inl e) = Inl e"
| "cagr_except (Inr v) = Inr v"

definition calculate_cagr :: "real \<Rightarrow> real \<Rightarrow> real \<Rightarrow> py_exception + (py_number \<times> real)" where
  "calculate_cagr first_price last_price years =
     (if years < 1 / 2 then
        raise_bind (float_truediv (last_price - first_price) first_price) (\<lambda>total_growth.
        Inr (PyFloat 0, total_growth))
      else
        raise_bind (cagr_except (cagr_try first_price last_price years)) (\<lambda>cagr.
        raise_bind (float_truediv (last_price - first_price) first_price) (\<lambda>total_growth.
        Inr (cagr, total_growth))))"

text \<open>
  The condition under which the exponentiation has no real result: a negative base with
  a fractional exponent.
\<close>

definition non_real_result :: "real \<Rightarrow> real \<Rightarrow> real \<Rightarrow> bool" where
  "non_real_result first_price last_price years \<longleftrightarrow>
     last_price / first_price < 0 \<and> 1 / years \<noteq> of_int \<lfloor>1 / years\<rfloor>"

section \<open>Calendar dates\<close>

text \<open>
  A contract date is a calendar date. Differences of dates are taken on the proleptic
  Gregorian ordinal, as Python's \<open>date\<close> and pandas' \<open>Timestamp\<close> do.
\<close>

record date =
  year :: int
  month :: int
  day :: int

definition is_leap :: "int \<Rightarrow> bool" where
  "is_leap y \<longleftrightarrow> y mod 4 = 0 \<and> (y mod 100 \<noteq> 0 \<or> y mod 400 = 0)"

definition days_before_year :: "int \<Rightarrow> int" where
  "days_before_year y = (y - 1) * 365 + (y - 1) div 4 - (y - 1) div 100 + (y - 1) div 400"

definition days_before_month :: "int \<Rightarrow> int \<Rightarrow> int" where
  "days_before_month y m =
     [0, 31, 59, 90, 120, 151, 181, 212, 243, 273, 304, 334] ! nat (m - 1)
       + (if 2 < m \<and> is_leap y then 1 else 0)"

definition toordinal :: "date \<Rightarrow> int" where
  "toordinal d = days_before_year (year d) + days_before_month (year d) (month d) + day d"

section \<open>Sales and the sales frame\<close>

text \<open>
  A \<open>sale\<close> is a row of the \<open>sales\<close> table as the frame holds it after
  \<open>to_datetime\<close> and \<open>to_numeric\<close> with \<open>errors='coerce'\<close>: \<open>None\<close> in
  \<open>contract_date\<close> or \<open>purchase_price\<close> is a value that was null or could not be
  parsed. The identifier, street and locality are the strings the ingestion always
  writes; the post code may be null. A \<open>sale_row\<close> is a row that survived \<open>dropna\<close>,
  with the added column \<open>sale_year\<close>.
\<close>

record sale =
  sale_id :: nat
  property_id :: string
  property_street_name :: string
  property_locality :: string
  property_post_code :: "int option"
  contract_date :: "date option"
  purchase_price :: "real option"

record sale_row =
  row_id :: nat
  row_property_id :: string
  row_street_name :: string
  row_locality :: string
  row_post_code :: "int option"
  row_contract_date :: date
  row_purchase_price :: real
  sale_year :: int

definition clean_row :: "sale \<Rightarrow> sale_row option" where
  "clean_row s =
     (case purchase_price s of
        None \<Rightarrow> None
      | Some p \<Rightarrow>
          (case contract_date s of
             None \<Rightarrow> None
           | Some d \<Rightarrow>
               Some \<lparr>row_id = sale_id s, row_property_id = property_id s,
                     row_street_name = property_street_name s,
                     row_locality = property_locality s,
                     row_post_code = property_post_code s,
                     row_contract_date = d, row_purchase_price = p,
                     sale_year = year d\<rparr>))"

definition dropna :: "sale list \<Rightarrow> sale_row list" where
  "dropna df = List.map_filter clean_row df"

text \<open>
  \<open>sort_values\<close> on two columns is a stable lexicographic sort. \<open>groupby\<close> yields the
  groups in ascending key order, keeps the frame's row order inside each group and
  leaves out the rows whose key has a null component (a key of \<open>None\<close>).
\<close>

definition sort_values :: "sale_row list \<Rightarrow> sale_row list" where
  "sort_values df = sort_key (\<lambda>r. (row_property_id r, toordinal (row_contract_date r))) df"

definition group_rows :: "('r \<Rightarrow> 'k option) \<Rightarrow> 'r list \<Rightarrow> 'k \<Rightarrow> 'r list" where
  "group_rows key df k = filter (\<lambda>r. key r = Some k) df"

definition group_keys :: "('r \<Rightarrow> ('k :: linorder) option) \<Rightarrow> 'r list \<Rightarrow> 'k list" where
  "group_keys key df = sort (remdups (List.map_filter key df))"

definition groupby :: "('r \<Rightarrow> ('k :: linorder) option) \<Rightarrow> 'r list \<Rightarrow> ('k \<times> 'r list) list" where
  "groupby key df = map (\<lambda>k. (k, group_rows key df k)) (group_keys key df)"

definition mean :: "real list \<Rightarrow> real" where
  "mean xs = sum_list xs / real (length xs)"

section \<open>Property level growth\<close>

text \<open>
  One entry of \<open>property_stats\<close>. The type of the rate is a parameter: the dictionaries
  built in the loop hold what \<open>calculate_cagr\<close> returned, the growth frame holds floats.
\<close>

record 'c property_stat =
  ps_property_id :: string
  cagr :: 'c
  total_growth :: real
  years_held :: real
  last_sale_price :: real
  first_sale_price :: real
  last_sale_year :: int
  ps_street_name :: string
  ps_locality :: string
  ps_post_code :: int

definition property_key :: "sale_row \<Rightarrow> string option" where
  "property_key r = Some (row_property_id r)"

definition property_stat_of :: "string \<Rightarrow> sale_row list \<Rightarrow> py_exception + py_number property_stat" where
  "property_stat_of pid grp =
     (let first_sale = hd grp;
          last_sale = last grp;
          first_price = row_purchase_price first_sale;
          last_price = row_purchase_price last_sale;
          first_date = row_contract_date first_sale;
          last_date = row_contract_date last_sale;
          years = real_of_int (toordinal last_date - toordinal first_date) / (36525 / 100)
      in raise_bind (calculate_cagr first_price last_price years) (\<lambda>(c, g).
         Inr \<lparr>ps_property_id = pid, cagr = c, total_growth = g, years_held = years,
               last_sale_price = last_price, first_sale_price = first_price,
               last_sale_year = sale_year last_sale,
               ps_street_name = row_street_name first_sale,
               ps_locality = row_locality first_sale,
               ps_post_code = (case row_post_code first_sale of Some pc \<Rightarrow> pc | None \<Rightarrow> 0)\<rparr>))"

fun property_level :: "(string \<times> sale_row list) list \<Rightarrow> py_exception + py_number property_stat list" where
  "property_level [] = Inr []"
| "property_level ((pid, grp) # rest) =
     (if length grp < 2 then property_level rest
      else raise_bind (property_stat_of pid grp) (\<lambda>p.
           raise_bind (property_level rest) (\<lambda>ps. Inr (p # ps))))"

text \<open>
  The dictionary of a property and the rows written to \<open>property_growth\<close>: only the
  keys that are columns of the \<open>PropertyGrowth\<close> table are kept.
\<close>

datatype py_value = PyStr string | PyNum py_number | PyInt int

definition items :: "py_number property_stat \<Rightarrow> (string \<times> py_value) list" where
  "items p =
     [(''property_id'', PyStr (ps_property_id p)),
      (''cagr'', PyNum (cagr p)),
      (''total_growth'', PyNum (PyFloat (total_growth p))),
      (''years_held'', PyNum (PyFloat (years_held p))),
      (''last_sale_price'', PyNum (PyFloat (last_sale_price p))),
      (''first_sale_price'', PyNum (PyFloat (first_sale_price p))),
      (''last_sale_year'', PyInt (last_sale_year p)),
      (''property_street_name'', PyStr (ps_street_name p)),
      (''property_locality'', PyStr (ps_locality p)),
      (''property_post_code'', PyInt (ps_post_code p))]"

definition PropertyGrowth_columns :: "string list" where
  "PropertyGrowth_columns =
     [''property_id'', ''cagr'', ''total_growth'', ''years_held'', ''last_sale_price'',
      ''first_sale_price'']"

definition db_property_records :: "py_number property_stat list \<Rightarrow> (string \<times> py_value) list list" where
  "db_property_records property_stats =
     map (\<lambda>p. filter (\<lambda>(k, v). k \<in> set PropertyGrowth_columns) (items p)) property_stats"

text \<open>
  The growth frame built from \<open>property_stats\<close>. A complex rate cannot be bound as a
  statement parameter, so the insert into \<open>property_growth\<close> fails for it; the frame is
  built only after that insert, and then every rate is a float.
\<close>

definition float_row :: "py_number property_stat \<Rightarrow> real property_stat option" where
  "float_row p =
     (case cagr p of
        PyComplex z \<Rightarrow> None
      | PyFloat c \<Rightarrow>
          Some \<lparr>ps_property_id = ps_property_id p, cagr = c,
                total_growth = total_growth p, years_held = years_held p,
                last_sale_price = last_sale_price p, first_sale_price = first_sale_price p,
                last_sale_year = last_sale_year p, ps_street_name = ps_street_name p,
                ps_locality = ps_locality p, ps_post_code = ps_post_code p\<rparr>)"

definition DataFrame :: "py_number property_stat list \<Rightarrow> real property_stat list option" where
  "DataFrame property_stats = those (map float_row property_stats)"

section \<open>Per-year aggregation\<close>

definition years_range :: "int list" where
  "years_range = [2001..2025]"

definition year_active_df :: "real property_stat list \<Rightarrow> int \<Rightarrow> real property_stat list" where
  "year_active_df growth_df y = filter (\<lambda>p. y \<le> last_sale_year p) growth_df"

definition street_key :: "real property_stat \<Rightarrow> (string \<times> string \<times> int) option" where
  "street_key p = Some (ps_street_name p, ps_locality p, ps_post_code p)"

definition suburb_key :: "real property_stat \<Rightarrow> string option" where
  "suburb_key p = Some (ps_locality p)"

record street_growth_row =
  sg_street_name :: string
  sg_suburb :: string
  sg_post_code :: int
  sg_year :: int
  sg_avg_cagr :: real
  sg_property_count :: nat

record suburb_growth_row =
  ug_suburb :: string
  ug_year :: int
  ug_avg_cagr :: real
  ug_property_count :: nat

definition street_year_records :: "real property_stat list \<Rightarrow> int \<Rightarrow> street_growth_row list" where
  "street_year_records growth_df y =
     (let year_active = year_active_df growth_df y
      in if year_active = [] then []
         else map (\<lambda>((street, locality, pc), g).
                \<lparr>sg_street_name = street, sg_suburb = locality, sg_post_code = pc,
                 sg_year = y, sg_avg_cagr = mean (map cagr g),
                 sg_property_count = length g\<rparr>)
              (groupby street_key year_active))"

definition suburb_year_records :: "real property_stat list \<Rightarrow> int \<Rightarrow> suburb_growth_row list" where
  "suburb_year_records growth_df y =
     (let year_active = year_active_df growth_df y
      in if year_active = [] then []
         else map (\<lambda>(locality, g).
                \<lparr>ug_suburb = locality, ug_year = y, ug_avg_cagr = mean (map cagr g),
                 ug_property_count = length g\<rparr>)
              (groupby suburb_key year_active))"

definition street_records :: "real property_stat list \<Rightarrow> street_growth_row list" where
  "street_records growth_df = concat (map (street_year_records growth_df) years_range)"

definition suburb_records :: "real property_stat list \<Rightarrow> suburb_growth_row list" where
  "suburb_records growth_df = concat (map (suburb_year_records growth_df) years_range)"

section \<open>All-time summaries and the top performer flag\<close>

text \<open>
  \<open>quantile\<close> is the quantile of a column by linear interpolation between the two
  nearest ranks, over the values that are not null; it is null (\<open>None\<close>) for a column
  with no value. A comparison with a null operand is false.
\<close>

definition column_values :: "real option list \<Rightarrow> real list" where
  "column_values col = List.map_filter (\<lambda>v. v) col"

definition quantile :: "real option list \<Rightarrow> real \<Rightarrow> real option" where
  "quantile col q =
     (let xs = sort (column_values col)
      in if xs = [] then None
         else (let h = real (length xs - 1) * q;
                   lo = nat \<lfloor>h\<rfloor>;
                   hi = nat \<lceil>h\<rceil>
               in Some (xs ! lo + (h - real lo) * (xs ! hi - xs ! lo))))"

definition cagr_threshold :: "real option list \<Rightarrow> real option" where
  "cagr_threshold col = (if column_values col \<noteq> [] then quantile col (9 / 10) else Some 0)"

fun ge_null :: "real option \<Rightarrow> real option \<Rightarrow> bool" where
  "ge_null (Some a) (Some t) = (t \<le> a)"
| "ge_null a t = False"

definition top_performer_flags :: "real option list \<Rightarrow> int list" where
  "top_performer_flags col =
     map (\<lambda>a. if ge_null a (cagr_threshold col) then 1 else 0) col"

definition sale_street_key :: "sale_row \<Rightarrow> (string \<times> string \<times> int) option" where
  "sale_street_key r = map_option (\<lambda>pc. (row_street_name r, row_locality r, pc)) (row_post_code r)"

definition sale_suburb_key :: "sale_row \<Rightarrow> string option" where
  "sale_suburb_key r = Some (row_locality r)"

record 'k summary_stats =
  st_key :: 'k
  st_unique_properties :: nat
  st_total_sales :: nat
  st_avg_cagr :: "real option"

definition summary_frame ::
  "(sale_row \<Rightarrow> ('k :: linorder) option) \<Rightarrow> (real property_stat \<Rightarrow> 'k option) \<Rightarrow>
   sale_row list \<Rightarrow> real property_stat list \<Rightarrow> 'k summary_stats list" where
  "summary_frame sale_key growth_key df growth_df =
     (let cagr_overall = map (\<lambda>(k, g). (k, mean (map cagr g))) (groupby growth_key growth_df)
      in map (\<lambda>(k, g).
            \<lparr>st_key = k,
             st_unique_properties = length (remdups (map row_property_id g)),
             st_total_sales = length (map row_id g),
             st_avg_cagr = map_of cagr_overall k\<rparr>)
          (groupby sale_key df))"

record street_summary_row =
  ss_street_name :: string
  ss_suburb :: string
  ss_post_code :: int
  ss_unique_properties :: nat
  ss_total_sales :: nat
  ss_avg_cagr :: "real option"
  ss_is_top_performer :: int

record suburb_summary_row =
  us_suburb :: string
  us_unique_properties :: nat
  us_total_sales :: nat
  us_avg_cagr :: "real option"
  us_is_top_performer :: int

definition street_summary_records :: "sale_row list \<Rightarrow> real property_stat list \<Rightarrow> street_summary_row list" where
  "street_summary_records df growth_df =
     (let street_summary_df = summary_frame sale_street_key street_key df growth_df;
          flags = top_performer_flags (map st_avg_cagr street_summary_df)
      in map (\<lambda>(row, flag).
            (case st_key row of (street, locality, pc) \<Rightarrow>
              \<lparr>ss_street_name = street, ss_suburb = locality, ss_post_code = pc,
               ss_unique_properties = st_unique_properties row,
               ss_total_sales = st_total_sales row,
               ss_avg_cagr = st_avg_cagr row,
               ss_is_top_performer = flag\<rparr>))
          (zip street_summary_df flags))"

definition suburb_summary_records :: "sale_row list \<Rightarrow> real property_stat list \<Rightarrow> suburb_summary_row list" where
  "suburb_summary_records df growth_df =
     (let suburb_summary_df = summary_frame sale_suburb_key suburb_key df growth_df;
          flags = top_performer_flags (map st_avg_cagr suburb_summary_df)
      in map (\<lambda>(row, flag).
            \<lparr>us_suburb = st_key row,
             us_unique_properties = st_unique_properties row,
             us_total_sales = st_total_sales row,
             us_avg_cagr = st_avg_cagr row,
             us_is_top_performer = flag\<rparr>)
          (zip suburb_summary_df flags))"

section \<open>The rebuild\<close>

text \<open>
  The five derived tables. \<open>replace_chunked\<close> is the delete of a table followed by the
  inserts of the records in slices of \<open>n\<close>, \<open>replace_all\<close> the delete followed by one
  insert; both skip the insert for an empty list.
\<close>

record database =
  property_growth :: "(string \<times> py_value) list list"
  street_growth :: "street_growth_row list"
  suburb_growth :: "suburb_growth_row list"
  street_summary :: "street_summary_row list"
  suburb_summary :: "suburb_summary_row list"

definition chunk_starts :: "nat \<Rightarrow> nat \<Rightarrow> nat list" where
  "chunk_starts len n = map (\<lambda>j. j * n) [0..<(len + n - 1) div n]"

definition replace_chunked :: "nat \<Rightarrow> 'a list \<Rightarrow> 'a list" where
  "replace_chunked n records =
     (if records \<noteq> [] then
        fold (\<lambda>i table. table @ take n (drop i records)) (chunk_starts (length records) n) []
      else [])"

definition replace_all :: "'a list \<Rightarrow> 'a list" where
  "replace_all records = (if records \<noteq> [] then [] @ records else [])"

text \<open>
  \<open>calculate_growth_metrics\<close> returns the exception that ended the run, if any, and the
  committed state of the database. An exception before the first commit leaves the
  database as it was: the session is closed without a commit.
\<close>

definition calculate_growth_metrics :: "sale list \<Rightarrow> database \<Rightarrow> py_exception option \<times> database" where
  "calculate_growth_metrics sales db =
     (if sales = [] then (None, db)
      else
        (let df = sort_values (dropna sales)
         in case property_level (groupby property_key df) of
              Inl e \<Rightarrow> (Some e, db)
            | Inr property_stats \<Rightarrow>
                (case DataFrame property_stats of
                   None \<Rightarrow> (Some DBAPIError, db)
                 | Some growth_df \<Rightarrow>
                     (let db1 = db\<lparr>property_growth :=
                                      replace_all (db_property_records property_stats)\<rparr>
                      in if property_stats = [] then (None, db1)
                         else
                           (None,
                            db1\<lparr>street_growth := replace_chunked 10000 (street_records growth_df),
                                suburb_growth := replace_all (suburb_records growth_df),
                                street_summary :=
                                  replace_chunked 10000 (street_summary_records df growth_df),
                                suburb_summary :=
                                  replace_all (suburb_summary_records df growth_df)\<rparr>)))))"

section \<open>Example data\<close>

text \<open>
  Concrete inputs on which the properties below are evaluated. \<open>example_sales\<close> holds
  two sales of property P1 two months apart, listed latest first, and one sale of
  property P2 whose price is null. \<open>previous_db\<close> is a database that an earlier rebuild
  has filled.
\<close>

definition example_sales :: "sale list" where
  "example_sales =
     [\<lparr>sale_id = 1, property_id = ''P1'', property_street_name = ''High St'',
       property_locality = ''Newtown'', property_post_code = Some 2042,
       contract_date = Some \<lparr>year = 2010, month = 3, day = 1\<rparr>,
       purchase_price = Some 550000\<rparr>,
      \<lparr>sale_id = 2, property_id = ''P1'', property_street_name = ''High St'',
       property_locality = ''Newtown'', property_post_code = Some 2042,
       contract_date = Some \<lparr>year = 2010, month = 1, day = 1\<rparr>,
       purchase_price = Some 500000\<rparr>,
      \<lparr>sale_id = 3, property_id = ''P2'', property_street_name = ''High St'',
       property_locality = ''Newtown'', property_post_code = Some 2042,
       contract_date = Some \<lparr>year = 2012, month = 5, day = 9\<rparr>,
       purchase_price = None\<rparr>]"


definition growth_row :: "string \<Rightarrow> real \<Rightarrow> int \<Rightarrow> string \<Rightarrow> string \<Rightarrow> real property_stat" where
  "growth_row pid c y street locality =
     \<lparr>ps_property_id = pid, cagr = c, total_growth = 0, years_held = 1,
      last_sale_price = 1, first_sale_price = 1, last_sale_year = y,
      ps_street_name = street, ps_locality = locality, ps_post_code = 2042\<rparr>"


definition late_growth_df :: "real property_stat list" where
  "late_growth_df = [growth_row ''P9'' (1 / 10) 2026 ''High St'' ''Newtown'']"

text \<open>
  \<open>late_sales\<close> holds one property sold twice in the year 2026.
\<close>

definition late_sales :: "sale list" where
  "late_sales =
     [\<lparr>sale_id = 1, property_id = ''P9'', property_street_name = ''High St'',
       property_locality = ''Newtown'', property_post_code = Some 2042,
       contract_date = Some \<lparr>year = 2026, month = 1, day = 15\<rparr>,
       purchase_price = Some 700000\<rparr>,
      \<lparr>sale_id = 2, property_id = ''P9'', property_street_name = ''High St'',
       property_locality = ''Newtown'', property_post_code = Some 2042,
       contract_date = Some \<lparr>year = 2026, month = 2, day = 20\<rparr>,
       purchase_price = Some 710000\<rparr>]"

definition previous_db :: database where
  "previous_db =
     \<lparr>property_growth = [[(''property_id'', PyStr ''P0'')]],
      street_growth =
        [\<lparr>sg_street_name = ''Old St'', sg_suburb = ''Glebe'', sg_post_code = 2037,
          sg_year = 2003, sg_avg_cagr = 0, sg_property_count = 1\<rparr>],
      suburb_growth =
        [\<lparr>ug_suburb = ''Glebe'', ug_year = 2003, ug_avg_cagr = 0, ug_property_count = 1\<rparr>],
      street_summary =
        [\<lparr>ss_street_name = ''Old St'', ss_suburb = ''Glebe'', ss_post_code = 2037,
          ss_unique_properties = 1, ss_total_sales = 2, ss_avg_cagr = Some 0,
          ss_is_top_performer = 1\<rparr>],
      suburb_summary =
        [\<lparr>us_suburb = ''Glebe'', us_unique_properties = 1, us_total_sales = 2,
          us_avg_cagr = Some 0, us_is_top_performer = 1\<rparr>]\<rparr>"

text \<open>
  \<open>two_street_sales\<close> holds two properties on two streets of one suburb: P1 sold twice
  within two months, P3 sold for sixteen times its first price after 1461 days, that is
  four years. \<open>two_street_growth_df\<close> is the growth frame derived from it.
\<close>

definition two_street_sales :: "sale list" where
  "two_street_sales =
     [\<lparr>sale_id = 1, property_id = ''P1'', property_street_name = ''High St'',
       property_locality = ''Newtown'', property_post_code = Some 2042,
       contract_date = Some \<lparr>year = 2010, month = 1, day = 1\<rparr>,
       purchase_price = Some 500000\<rparr>,
      \<lparr>sale_id = 2, property_id = ''P3'', property_street_name = ''Low Rd'',
       property_locality = ''Newtown'', property_post_code = Some 2042,
       contract_date = Some \<lparr>year = 2010, month = 1, day = 1\<rparr>,
       purchase_price = Some 100000\<rparr>,
      \<lparr>sale_id = 3, property_id = ''P1'', property_street_name = ''High St'',
       property_locality = ''Newtown'', property_post_code = Some 2042,
       contract_date = Some \<lparr>year = 2010, month = 3, day = 1\<rparr>,
       purchase_price = Some 550000\<rparr>,
      \<lparr>sale_id = 4, property_id = ''P3'', property_street_name = ''Low Rd'',
       property_locality = ''Newtown'', property_post_code = Some 2042,
       contract_date = Some \<lparr>year = 2014, month = 1, day = 1\<rparr>,
       purchase_price = Some 1600000\<rparr>]"

definition two_street_growth_df :: "real property_stat list" where
  "two_street_growth_df =
     [\<lparr>ps_property_id = ''P1'', cagr = 0, total_growth = 1 / 10,
       years_held = 236 / 1461, last_sale_price = 550000, first_sale_price = 500000,
       last_sale_year = 2010, ps_street_name = ''High St'', ps_locality = ''Newtown'',
       ps_post_code = 2042\<rparr>,
      \<lparr>ps_property_id = ''P3'', cagr = 1, total_growth = 15,
       years_held = 4, last_sale_price = 1600000, first_sale_price = 100000,
       last_sale_year = 2014, ps_street_name = ''Low Rd'', ps_locality = ''Newtown'',
       ps_post_code = 2042\<rparr>]"


definition mixed_sales :: "sale list" where
  "mixed_sales = two_street_sales @
     [\<lparr>sale_id = 5, property_id = ''P4'', property_street_name = ''Low Rd'',
       property_locality = ''Newtown'', property_post_code = Some 2042,
       contract_date = Some \<lparr>year = 2020, month = 2, day = 29\<rparr>,
       purchase_price = Some 900000\<rparr>]"

text \<open>
  \<open>null_post_code_sales\<close> adds to \<open>two_street_sales\<close> a property P4 with a single
  sale whose post code is null.
\<close>

definition null_post_code_sales :: "sale list" where
  "null_post_code_sales = two_street_sales @
     [\<lparr>sale_id = 5, property_id = ''P4'', property_street_name = ''Low Rd'',
       property_locality = ''Newtown'', property_post_code = None,
       contract_date = Some \<lparr>year = 2020, month = 2, day = 29\<rparr>,
       purchase_price = Some 900000\<rparr>]"

section \<open>Properties of the CAGR calculator\<close>

lemma float_pow_raises:
  "float_pow x y = Inl e \<Longrightarrow> e = ZeroDivisionError \<or> e = OverflowError"
  by (auto simp: float_pow_def Let_def split: if_splits)

lemma cagr_try_nonzero:
  "first_price \<noteq> 0 \<Longrightarrow> years \<noteq> 0 \<Longrightarrow>
   cagr_try first_price last_price years =
     raise_bind (float_pow (last_price / first_price) (1 / years)) (\<lambda>p. Inr (number_sub p 1))"
  by (simp add: cagr_try_def float_truediv_def raise_bind_def)

text \<open>
  The examples of the module's unit tests: one year doubling, a holding period under six
  months, a loss, and a zero holding period.
\<close>

lemma calculate_cagr_doubling: "calculate_cagr 100 200 1 = Inr (PyFloat 1, 1)"
  by (simp add: calculate_cagr_def cagr_try_def float_truediv_def float_pow_def
      raise_bind_def DBL_MAX_def)

lemma calculate_cagr_short_hold: "calculate_cagr 100 200 (4 / 10) = Inr (PyFloat 0, 1)"
  by (simp add: calculate_cagr_def float_truediv_def raise_bind_def)

lemma calculate_cagr_loss: "calculate_cagr 100 50 1 = Inr (PyFloat (- 1 / 2), - 1 / 2)"
  by (simp add: calculate_cagr_def cagr_try_def float_truediv_def float_pow_def
      raise_bind_def DBL_MAX_def)

lemma calculate_cagr_zero_years: "calculate_cagr 100 200 0 = Inr (PyFloat 0, 1)"
  by (simp add: calculate_cagr_def float_truediv_def raise_bind_def)

text \<open>
  Claim C10. With a first price of zero, \<open>calculate_cagr\<close> raises \<open>ZeroDivisionError\<close>
  to its caller for every last price and every holding period: directly when the period
  is under half a year, and otherwise because the division for the total growth is not
  covered by the handler that resets the rate to zero.
\<close>

theorem calculate_cagr_zero_first_price:
  "calculate_cagr 0 last_price years = Inl ZeroDivisionError"
  by (simp add: calculate_cagr_def cagr_try_def float_truediv_def raise_bind_def)

text \<open>
  For a holding period of at least half a year and a first price that is not zero the
  calculator returns: the rate is \<open>0.0\<close> when the exponentiation raises, and otherwise
  the power minus one. The total growth is returned in both cases.
\<close>

lemma calculate_cagr_nonzero_first_price:
  assumes "1 / 2 \<le> years" and "first_price \<noteq> 0"
  shows "calculate_cagr first_price last_price years =
     Inr (case float_pow (last_price / first_price) (1 / years) of
            Inl e \<Rightarrow> PyFloat 0
          | Inr p \<Rightarrow> number_sub p 1,
          (last_price - first_price) / first_price)"
proof -
  from assms have y: "years \<noteq> 0" and ny: "\<not> years < 1 / 2" by auto
  show ?thesis
  proof (cases "float_pow (last_price / first_price) (1 / years)")
    case (Inl e)
    then have "e = ZeroDivisionError \<or> e = OverflowError"
      by (rule float_pow_raises)
    then have "cagr_except (Inl e) = Inr (PyFloat 0)" by auto
    with Inl assms(2) y ny show ?thesis
      by (simp add: calculate_cagr_def cagr_try_nonzero float_truediv_def raise_bind_def)
  next
    case (Inr p)
    with assms(2) y ny show ?thesis
      by (simp add: calculate_cagr_def cagr_try_nonzero float_truediv_def raise_bind_def)
  qed
qed

lemma calculate_cagr_overflow_example:
  "float_pow (10 ^ 200 / 1) (1 / (1 / 2)) = Inl OverflowError \<and>
   calculate_cagr 1 (10 ^ 200) (1 / 2) = Inr (PyFloat 0, (10 ^ 200 - 1) / 1)"
proof -
  have p: "float_pow (10 ^ 200 / 1) (1 / (1 / 2)) = Inl OverflowError"
    by (simp add: float_pow_def DBL_MAX_def)
  show ?thesis
    using calculate_cagr_nonzero_first_price [of "1 / 2" 1 "10 ^ 200"] p by simp
qed

text \<open>
  Claim C5 on the code. The claim asks for a rate of \<open>0.0\<close> and the total growth
  whenever the exponentiation has a domain error. With a first price of 100, a last price
  of -50 and a holding period of two years the base is negative and the exponent
  fractional: nothing is raised, the handler is not entered, and the rate returned is a
  complex number, not \<open>0.0\<close>. With a first price of 0 the handler sets the rate to
  \<open>0.0\<close>, but the division for the total growth raises again and nothing is returned.
\<close>

theorem calculate_cagr_negative_base_complex:
  "(1 / 2 :: real) \<le> 2 \<and> non_real_result 100 (- 50) 2 \<and>
   calculate_cagr 100 (- 50) 2 =
     Inr (PyComplex (of_real ((1 / 2) powr (1 / 2)) * cis (pi * (1 / 2)) - 1), - 3 / 2) \<and>
   calculate_cagr 100 (- 50) 2 \<noteq> Inr (PyFloat 0, (- 50 - 100) / 100) \<and>
   cagr_except (cagr_try 0 100 1) = Inr (PyFloat 0) \<and>
   calculate_cagr 0 100 1 = Inl ZeroDivisionError"
proof -
  have small: "(1 / 2 :: real) powr (1 / 2) \<le> 1"
    by (rule powr_le1) simp_all
  have big: "(1 :: real) \<le> DBL_MAX"
    by (simp add: DBL_MAX_def)
  have nov: "\<not> DBL_MAX < (1 / 2 :: real) powr (1 / 2)"
    using small big by linarith
  have c: "calculate_cagr 100 (- 50) 2 =
     Inr (PyComplex (of_real ((1 / 2) powr (1 / 2)) * cis (pi * (1 / 2)) - 1), - 3 / 2)"
    using nov
    by (simp add: calculate_cagr_def cagr_try_def float_truediv_def float_pow_def
        raise_bind_def)
  have h: "cagr_except (cagr_try 0 100 1) = Inr (PyFloat 0)"
    by (simp add: cagr_try_def float_truediv_def raise_bind_def)
  have z: "calculate_cagr 0 100 1 = Inl ZeroDivisionError"
    by (simp add: calculate_cagr_def cagr_try_def float_truediv_def raise_bind_def)
  from c h z show ?thesis
    by (simp add: non_real_result_def)
qed

section \<open>Frames, groups and table replacement\<close>

lemma group_keys_set: "set (group_keys key df) = {k. \<exists>r \<in> set df. key r = Some k}"
  by (auto simp: group_keys_def List.map_filter_def image_iff) force

lemma groupby_mem:
  "(k, g) \<in> set (groupby key df) \<longleftrightarrow>
     (\<exists>r \<in> set df. key r = Some k) \<and> g = group_rows key df k"
  by (auto simp: groupby_def group_keys_set)

lemma fold_chunks:
  "fold (\<lambda>i table. table @ take n (drop i records)) (map (\<lambda>j. j * n) [0..<k]) t0 =
     t0 @ take (k * n) records"
proof (induction k)
  case 0
  show ?case by simp
next
  case (Suc k)
  have "take (k * n) records @ take n (drop (k * n) records) = take (k * n + n) records"
    by (simp add: take_add)
  with Suc show ?case by (simp add: add.commute)
qed

lemma replace_chunked_eq: "0 < n \<Longrightarrow> replace_chunked n records = records"
proof -
  assume n: "0 < n"
  have "length records \<le> (length records + n - 1) div n * n"
  proof -
    have "(length records + n - 1) mod n < n" using n by simp
    moreover have "(length records + n - 1) div n * n + (length records + n - 1) mod n =
        length records + n - 1"
      by simp
    ultimately show ?thesis by linarith
  qed
  then show ?thesis
    by (simp add: replace_chunked_def chunk_starts_def fold_chunks)
qed

lemma replace_all_eq: "replace_all records = records"
  by (simp add: replace_all_def)

section \<open>The temporal window\<close>

lemma street_year_records_row:
  assumes "r \<in> set (street_year_records growth_df y)"
  shows "sg_year r = y \<and>
    sg_property_count r =
      length (group_rows street_key (year_active_df growth_df y)
        (sg_street_name r, sg_suburb r, sg_post_code r)) \<and>
    sg_avg_cagr r =
      mean (map cagr (group_rows street_key (year_active_df growth_df y)
        (sg_street_name r, sg_suburb r, sg_post_code r)))"
  using assms
  by (auto simp: street_year_records_def Let_def groupby_mem split: if_splits)

lemma suburb_year_records_row:
  assumes "r \<in> set (suburb_year_records growth_df y)"
  shows "ug_year r = y \<and>
    ug_property_count r =
      length (group_rows suburb_key (year_active_df growth_df y) (ug_suburb r)) \<and>
    ug_avg_cagr r =
      mean (map cagr (group_rows suburb_key (year_active_df growth_df y) (ug_suburb r)))"
  using assms
  by (auto simp: suburb_year_records_def Let_def groupby_mem split: if_splits)

lemma street_records_year:
  "r \<in> set (street_records growth_df) \<Longrightarrow> sg_year r \<in> set years_range"
  by (auto simp: street_records_def dest: street_year_records_row)

lemma suburb_records_year:
  "r \<in> set (suburb_records growth_df) \<Longrightarrow> ug_year r \<in> set years_range"
  by (auto simp: suburb_records_def dest: suburb_year_records_row)



lemma late_property_level:
  "property_level (groupby property_key (sort_values (dropna late_sales))) =
     Inr [\<lparr>ps_property_id = ''P9'', cagr = PyFloat 0, total_growth = 1 / 70,
           years_held = 48 / 487, last_sale_price = 710000, first_sale_price = 700000,
           last_sale_year = 2026, ps_street_name = ''High St'', ps_locality = ''Newtown'',
           ps_post_code = 2042\<rparr>]"
  by (simp add: late_sales_def dropna_def List.map_filter_def clean_row_def
      sort_values_def toordinal_def days_before_year_def days_before_month_def is_leap_def
      groupby_def group_keys_def group_rows_def property_key_def property_stat_of_def Let_def
      calculate_cagr_def float_truediv_def raise_bind_def)

lemma late_rebuild:
  "map sg_year (street_growth (snd (calculate_growth_metrics late_sales previous_db))) =
     [2001..2025] \<and>
   map ug_year (suburb_growth (snd (calculate_growth_metrics late_sales previous_db))) =
     [2001..2025]"
  by (simp add: calculate_growth_metrics_def late_sales_def dropna_def List.map_filter_def
      clean_row_def sort_values_def toordinal_def days_before_year_def days_before_month_def
      is_leap_def groupby_def group_keys_def group_rows_def property_key_def
      property_stat_of_def Let_def calculate_cagr_def float_truediv_def raise_bind_def
      DataFrame_def float_row_def street_key_def suburb_key_def mean_def
      replace_chunked_eq replace_all_eq street_records_def suburb_records_def years_range_def
      street_year_records_def suburb_year_records_def year_active_df_def)

text \<open>
  Claim C2 on the code. The analysis range ends at the literal year 2025 and takes no
  clock reading. The rebuild over \<open>late_sales\<close>, whose property was last sold in 2026,
  writes street and suburb rows for the years 2001 to 2025 and none for 2026, although
  the property is active in 2026.
\<close>

theorem years_range_ends_2025:
  "years_range = [2001..2025] \<and> 2026 \<notin> set years_range \<and>
   property_level (groupby property_key (sort_values (dropna late_sales))) =
     Inr [\<lparr>ps_property_id = ''P9'', cagr = PyFloat 0, total_growth = 1 / 70,
           years_held = 48 / 487, last_sale_price = 710000, first_sale_price = 700000,
           last_sale_year = 2026, ps_street_name = ''High St'', ps_locality = ''Newtown'',
           ps_post_code = 2042\<rparr>] \<and>
   map sg_year (street_growth (snd (calculate_growth_metrics late_sales previous_db))) =
     [2001..2025] \<and>
   map ug_year (suburb_growth (snd (calculate_growth_metrics late_sales previous_db))) =
     [2001..2025] \<and>
   year_active_df late_growth_df 2026 \<noteq> [] \<and>
   filter (\<lambda>r. sg_year r = 2026) (street_records late_growth_df) = [] \<and>
   filter (\<lambda>r. ug_year r = 2026) (suburb_records late_growth_df) = []"
proof -
  have out: "2026 \<notin> set years_range"
    by (simp add: years_range_def)
  have "\<forall>r \<in> set (street_records late_growth_df). sg_year r \<noteq> 2026"
    using street_records_year out by metis
  then have s: "filter (\<lambda>r. sg_year r = 2026) (street_records late_growth_df) = []"
    by (simp add: filter_empty_conv)
  have "\<forall>r \<in> set (suburb_records late_growth_df). ug_year r \<noteq> 2026"
    using suburb_records_year out by metis
  then have u: "filter (\<lambda>r. ug_year r = 2026) (suburb_records late_growth_df) = []"
    by (simp add: filter_empty_conv)
  have a: "year_active_df late_growth_df 2026 \<noteq> []"
    by (simp add: year_active_df_def late_growth_df_def growth_row_def)
  have r: "years_range = [2001..2025]"
    by (simp add: years_range_def)
  from r out late_property_level late_rebuild a s u show ?thesis
    by (intro conjI) simp_all
qed

section \<open>The rebuild\<close>




section \<open>The top performer classification\<close>

lemma column_values_set: "set (column_values col) = {a. Some a \<in> set col}"
  by (force simp: column_values_def List.map_filter_def image_iff)

lemma sort_key_Nil_iff: "sort_key f xs = [] \<longleftrightarrow> xs = []"
  by (metis length_sort length_0_conv)

lemma column_values_empty: "column_values col = [] \<longleftrightarrow> (\<forall>v \<in> set col. v = None)"
proof -
  have "column_values col = [] \<longleftrightarrow> set (column_values col) = {}" by simp
  also have "\<dots> \<longleftrightarrow> (\<forall>v \<in> set col. v = None)"
    unfolding column_values_set by (metis (mono_tags, lifting) Collect_empty_eq not_Some_eq)
  finally show ?thesis .
qed

lemma quantile_le_value:
  assumes "quantile col q = Some t" and "0 \<le> q" and "q \<le> 1"
  shows "\<exists>a \<in> set (column_values col). t \<le> a"
proof -
  define xs where "xs = sort (column_values col)"
  define h where "h = real (length xs - 1) * q"
  define lo where "lo = nat \<lfloor>h\<rfloor>"
  define hi where "hi = nat \<lceil>h\<rceil>"
  from assms(1) have ne: "xs \<noteq> []" and t: "t = xs ! lo + (h - real lo) * (xs ! hi - xs ! lo)"
    by (auto simp: quantile_def Let_def xs_def h_def lo_def hi_def split: if_splits)
  have h0: "0 \<le> h" using assms(2) by (simp add: h_def)
  have h1: "h \<le> real (length xs - 1)"
    using assms(2,3) by (simp add: h_def mult_left_le)
  have lo_le: "real lo \<le> h" using h0 by (simp add: lo_def)
  have lo_hi: "lo \<le> hi" unfolding lo_def hi_def
    by (rule nat_mono) (rule floor_le_ceiling)
  have hi_le: "hi \<le> length xs - 1" using h1 by (simp add: hi_def)
  then have hi_lt: "hi < length xs" using ne by (cases xs) auto
  have frac: "h - real lo \<le> 1"
  proof -
    have "h < of_int \<lfloor>h\<rfloor> + 1" by linarith
    moreover have "real lo = of_int \<lfloor>h\<rfloor>" using h0 by (simp add: lo_def)
    ultimately show ?thesis by linarith
  qed
  have srt: "sorted xs" by (simp add: xs_def)
  have d: "xs ! lo \<le> xs ! hi" using srt lo_hi hi_lt by (simp add: sorted_nth_mono)
  have "(h - real lo) * (xs ! hi - xs ! lo) \<le> 1 * (xs ! hi - xs ! lo)"
    using frac d by (intro mult_right_mono) auto
  then have "t \<le> xs ! hi" using t by simp
  moreover have "xs ! hi \<in> set (column_values col)"
    using hi_lt nth_mem [of hi xs] by (simp add: xs_def)
  ultimately show ?thesis by blast
qed

lemma cagr_threshold_Some: "\<exists>t. cagr_threshold col = Some t"
  by (auto simp: cagr_threshold_def quantile_def Let_def sort_key_Nil_iff)

lemma top_performer_flags_map:
  "zip frame (top_performer_flags (map f frame)) =
     map (\<lambda>row. (row, if ge_null (f row) (cagr_threshold (map f frame)) then 1 else 0)) frame"
  by (simp add: top_performer_flags_def zip_map2 zip_same_conv_map)

lemma street_summary_records_rows:
  "street_summary_records df growth_df =
     map (\<lambda>row. (case st_key row of (street, locality, pc) \<Rightarrow>
              \<lparr>ss_street_name = street, ss_suburb = locality, ss_post_code = pc,
               ss_unique_properties = st_unique_properties row,
               ss_total_sales = st_total_sales row,
               ss_avg_cagr = st_avg_cagr row,
               ss_is_top_performer =
                 (if ge_null (st_avg_cagr row)
                   (cagr_threshold (map st_avg_cagr (summary_frame sale_street_key street_key df growth_df)))
                  then 1 else 0)\<rparr>))
       (summary_frame sale_street_key street_key df growth_df)"
  by (simp add: street_summary_records_def Let_def top_performer_flags_map)

lemma suburb_summary_records_rows:
  "suburb_summary_records df growth_df =
     map (\<lambda>row.
              \<lparr>us_suburb = st_key row,
               us_unique_properties = st_unique_properties row,
               us_total_sales = st_total_sales row,
               us_avg_cagr = st_avg_cagr row,
               us_is_top_performer =
                 (if ge_null (st_avg_cagr row)
                   (cagr_threshold (map st_avg_cagr (summary_frame sale_suburb_key suburb_key df growth_df)))
                  then 1 else 0)\<rparr>)
       (summary_frame sale_suburb_key suburb_key df growth_df)"
  by (simp add: suburb_summary_records_def Let_def top_performer_flags_map)

lemma street_avg_column:
  "map ss_avg_cagr (street_summary_records df growth_df) =
     map st_avg_cagr (summary_frame sale_street_key street_key df growth_df)"
  by (simp add: street_summary_records_rows split_beta)

lemma suburb_avg_column:
  "map us_avg_cagr (suburb_summary_records df growth_df) =
     map st_avg_cagr (summary_frame sale_suburb_key suburb_key df growth_df)"
  by (simp add: suburb_summary_records_rows)

lemma street_flag:
  assumes "r \<in> set (street_summary_records df growth_df)"
  shows "ss_is_top_performer r =
    (if ge_null (ss_avg_cagr r) (cagr_threshold (map ss_avg_cagr (street_summary_records df growth_df)))
     then 1 else 0)"
  using assms unfolding street_avg_column
  by (subst (asm) street_summary_records_rows) (auto simp: split_beta)

lemma suburb_flag:
  assumes "r \<in> set (suburb_summary_records df growth_df)"
  shows "us_is_top_performer r =
    (if ge_null (us_avg_cagr r) (cagr_threshold (map us_avg_cagr (suburb_summary_records df growth_df)))
     then 1 else 0)"
  using assms unfolding suburb_avg_column
  by (subst (asm) suburb_summary_records_rows) auto

lemma ge_null_Some: "ge_null v (Some t) \<longleftrightarrow> (\<exists>a. v = Some a \<and> t \<le> a)"
  by (cases v) auto

lemma street_classified:
  "\<exists>t. cagr_threshold (map ss_avg_cagr (street_summary_records df growth_df)) = Some t \<and>
     ((\<forall>r \<in> set (street_summary_records df growth_df). ss_avg_cagr r = None) \<longrightarrow> t = 0) \<and>
     ((\<exists>r \<in> set (street_summary_records df growth_df). ss_avg_cagr r \<noteq> None) \<longrightarrow>
        quantile (map ss_avg_cagr (street_summary_records df growth_df)) (9 / 10) = Some t) \<and>
     (\<forall>r \<in> set (street_summary_records df growth_df).
        ss_is_top_performer r = (if \<exists>a. ss_avg_cagr r = Some a \<and> t \<le> a then 1 else 0))"
proof -
  let ?rows = "street_summary_records df growth_df"
  let ?col = "map ss_avg_cagr ?rows"
  obtain t where t: "cagr_threshold ?col = Some t"
    using cagr_threshold_Some by blast
  have e: "column_values ?col = [] \<longleftrightarrow> (\<forall>r \<in> set ?rows. ss_avg_cagr r = None)"
    by (simp add: column_values_empty)
  have "(\<forall>r \<in> set ?rows. ss_avg_cagr r = None) \<longrightarrow> t = 0"
  proof
    assume "\<forall>r \<in> set ?rows. ss_avg_cagr r = None"
    then have "column_values ?col = []" using e by auto
    with t show "t = 0" by (simp only: cagr_threshold_def) simp
  qed
  moreover have "(\<exists>r \<in> set ?rows. ss_avg_cagr r \<noteq> None) \<longrightarrow> quantile ?col (9 / 10) = Some t"
  proof
    assume "\<exists>r \<in> set ?rows. ss_avg_cagr r \<noteq> None"
    then have "column_values ?col \<noteq> []" using e by auto
    with t show "quantile ?col (9 / 10) = Some t" by (simp only: cagr_threshold_def) simp
  qed
  moreover have "\<forall>r \<in> set ?rows.
      ss_is_top_performer r = (if \<exists>a. ss_avg_cagr r = Some a \<and> t \<le> a then 1 else 0)"
    using street_flag [of _ df growth_df] t by (simp add: ge_null_Some)
  ultimately show ?thesis using t by blast
qed

lemma suburb_classified:
  "\<exists>t. cagr_threshold (map us_avg_cagr (suburb_summary_records df growth_df)) = Some t \<and>
     ((\<forall>r \<in> set (suburb_summary_records df growth_df). us_avg_cagr r = None) \<longrightarrow> t = 0) \<and>
     ((\<exists>r \<in> set (suburb_summary_records df growth_df). us_avg_cagr r \<noteq> None) \<longrightarrow>
        quantile (map us_avg_cagr (suburb_summary_records df growth_df)) (9 / 10) = Some t) \<and>
     (\<forall>r \<in> set (suburb_summary_records df growth_df).
        us_is_top_performer r = (if \<exists>a. us_avg_cagr r = Some a \<and> t \<le> a then 1 else 0))"
proof -
  let ?rows = "suburb_summary_records df growth_df"
  let ?col = "map us_avg_cagr ?rows"
  obtain t where t: "cagr_threshold ?col = Some t"
    using cagr_threshold_Some by blast
  have e: "column_values ?col = [] \<longleftrightarrow> (\<forall>r \<in> set ?rows. us_avg_cagr r = None)"
    by (simp add: column_values_empty)
  have "(\<forall>r \<in> set ?rows. us_avg_cagr r = None) \<longrightarrow> t = 0"
  proof
    assume "\<forall>r \<in> set ?rows. us_avg_cagr r = None"
    then have "column_values ?col = []" using e by auto
    with t show "t = 0" by (simp only: cagr_threshold_def) simp
  qed
  moreover have "(\<exists>r \<in> set ?rows. us_avg_cagr r \<noteq> None) \<longrightarrow> quantile ?col (9 / 10) = Some t"
  proof
    assume "\<exists>r \<in> set ?rows. us_avg_cagr r \<noteq> None"
    then have "column_values ?col \<noteq> []" using e by auto
    with t show "quantile ?col (9 / 10) = Some t" by (simp only: cagr_threshold_def) simp
  qed
  moreover have "\<forall>r \<in> set ?rows.
      us_is_top_performer r = (if \<exists>a. us_avg_cagr r = Some a \<and> t \<le> a then 1 else 0)"
    using suburb_flag [of _ df growth_df] t by (simp add: ge_null_Some)
  ultimately show ?thesis using t by blast
qed

lemma threshold_reached:
  assumes "cagr_threshold col = Some t" and "\<exists>v \<in> set col. v \<noteq> None"
  shows "\<exists>a. Some a \<in> set col \<and> t \<le> a"
proof -
  from assms(2) have "column_values col \<noteq> []"
    by (simp add: column_values_empty)
  with assms(1) have "quantile col (9 / 10) = Some t"
    by (simp add: cagr_threshold_def)
  then obtain a where "a \<in> set (column_values col)" and "t \<le> a"
    using quantile_le_value [of col "9 / 10" t] by auto
  then show ?thesis by (auto simp: column_values_set)
qed

lemma street_separated:
  "(\<forall>r \<in> set (street_summary_records df growth_df).
      \<forall>r' \<in> set (street_summary_records df growth_df).
        ss_is_top_performer r = 1 \<and> ss_is_top_performer r' = 0 \<and> ss_avg_cagr r' \<noteq> None \<longrightarrow>
        (\<exists>a b. ss_avg_cagr r = Some a \<and> ss_avg_cagr r' = Some b \<and> b < a)) \<and>
   ((\<exists>r \<in> set (street_summary_records df growth_df). ss_avg_cagr r \<noteq> None) \<longrightarrow>
      (\<exists>r \<in> set (street_summary_records df growth_df). ss_is_top_performer r = 1))"
proof -
  let ?rows = "street_summary_records df growth_df"
  obtain t where t: "cagr_threshold (map ss_avg_cagr ?rows) = Some t"
    and f: "\<forall>r \<in> set ?rows.
        ss_is_top_performer r = (if \<exists>a. ss_avg_cagr r = Some a \<and> t \<le> a then 1 else 0)"
    using street_classified [of df growth_df] by blast
  have one: "\<forall>r \<in> set ?rows. \<forall>r' \<in> set ?rows.
        ss_is_top_performer r = 1 \<and> ss_is_top_performer r' = 0 \<and> ss_avg_cagr r' \<noteq> None \<longrightarrow>
        (\<exists>a b. ss_avg_cagr r = Some a \<and> ss_avg_cagr r' = Some b \<and> b < a)"
  proof (intro ballI impI)
    fix r r'
    assume r: "r \<in> set ?rows" and r': "r' \<in> set ?rows"
      and h: "ss_is_top_performer r = 1 \<and> ss_is_top_performer r' = 0 \<and> ss_avg_cagr r' \<noteq> None"
    from h obtain b where b: "ss_avg_cagr r' = Some b" by auto
    from f r h obtain a where a: "ss_avg_cagr r = Some a" "t \<le> a"
      by (auto split: if_splits)
    from f r' h b have "\<not> t \<le> b" by (auto split: if_splits)
    with a b show "\<exists>a b. ss_avg_cagr r = Some a \<and> ss_avg_cagr r' = Some b \<and> b < a"
      by auto
  qed
  have two: "(\<exists>r \<in> set ?rows. ss_avg_cagr r \<noteq> None) \<longrightarrow> (\<exists>r \<in> set ?rows. ss_is_top_performer r = 1)"
  proof
    assume "\<exists>r \<in> set ?rows. ss_avg_cagr r \<noteq> None"
    then have "\<exists>v \<in> set (map ss_avg_cagr ?rows). v \<noteq> None" by auto
    from threshold_reached [OF t this] obtain a
      where a: "Some a \<in> set (map ss_avg_cagr ?rows)" "t \<le> a"
      by blast
    from a(1) obtain r where r: "r \<in> set ?rows" "Some a = ss_avg_cagr r"
      by auto
    from r(2) have "ss_avg_cagr r = Some a" by simp
    with f r(1) a(2) have "ss_is_top_performer r = 1" by auto
    with r(1) show "\<exists>r \<in> set ?rows. ss_is_top_performer r = 1" by blast
  qed
  from one two show ?thesis by blast
qed

lemma suburb_separated:
  "(\<forall>r \<in> set (suburb_summary_records df growth_df).
      \<forall>r' \<in> set (suburb_summary_records df growth_df).
        us_is_top_performer r = 1 \<and> us_is_top_performer r' = 0 \<and> us_avg_cagr r' \<noteq> None \<longrightarrow>
        (\<exists>a b. us_avg_cagr r = Some a \<and> us_avg_cagr r' = Some b \<and> b < a)) \<and>
   ((\<exists>r \<in> set (suburb_summary_records df growth_df). us_avg_cagr r \<noteq> None) \<longrightarrow>
      (\<exists>r \<in> set (suburb_summary_records df growth_df). us_is_top_performer r = 1))"
proof -
  let ?rows = "suburb_summary_records df growth_df"
  obtain t where t: "cagr_threshold (map us_avg_cagr ?rows) = Some t"
    and f: "\<forall>r \<in> set ?rows.
        us_is_top_performer r = (if \<exists>a. us_avg_cagr r = Some a \<and> t \<le> a then 1 else 0)"
    using suburb_classified [of df growth_df] by blast
  have one: "\<forall>r \<in> set ?rows. \<forall>r' \<in> set ?rows.
        us_is_top_performer r = 1 \<and> us_is_top_performer r' = 0 \<and> us_avg_cagr r' \<noteq> None \<longrightarrow>
        (\<exists>a b. us_avg_cagr r = Some a \<and> us_avg_cagr r' = Some b \<and> b < a)"
  proof (intro ballI impI)
    fix r r'
    assume r: "r \<in> set ?rows" and r': "r' \<in> set ?rows"
      and h: "us_is_top_performer r = 1 \<and> us_is_top_performer r' = 0 \<and> us_avg_cagr r' \<noteq> None"
    from h obtain b where b: "us_avg_cagr r' = Some b" by auto
    from f r h obtain a where a: "us_avg_cagr r = Some a" "t \<le> a"
      by (auto split: if_splits)
    from f r' h b have "\<not> t \<le> b" by (auto split: if_splits)
    with a b show "\<exists>a b. us_avg_cagr r = Some a \<and> us_avg_cagr r' = Some b \<and> b < a"
      by auto
  qed
  have two: "(\<exists>r \<in> set ?rows. us_avg_cagr r \<noteq> None) \<longrightarrow> (\<exists>r \<in> set ?rows. us_is_top_performer r = 1)"
  proof
    assume "\<exists>r \<in> set ?rows. us_avg_cagr r \<noteq> None"
    then have "\<exists>v \<in> set (map us_avg_cagr ?rows). v \<noteq> None" by auto
    from threshold_reached [OF t this] obtain a
      where a: "Some a \<in> set (map us_avg_cagr ?rows)" "t \<le> a"
      by blast
    from a(1) obtain r where r: "r \<in> set ?rows" "Some a = us_avg_cagr r"
      by auto
    from r(2) have "us_avg_cagr r = Some a" by simp
    with f r(1) a(2) have "us_is_top_performer r = 1" by auto
    with r(1) show "\<exists>r \<in> set ?rows. us_is_top_performer r = 1" by blast
  qed
  from one two show ?thesis by blast
qed

subsection \<open>The share of rows above the threshold\<close>

lemma column_values_Cons:
  "column_values (v # col) = (case v of None \<Rightarrow> column_values col | Some a \<Rightarrow> a # column_values col)"
  by (simp add: column_values_def List.map_filter_def split: option.splits)

lemma column_values_Nil: "column_values [] = []"
  by (simp add: column_values_def List.map_filter_def)

lemma length_filter_column_values:
  "length (filter P (column_values col)) = length (filter (\<lambda>v. \<exists>a. v = Some a \<and> P a) col)"
  by (induction col) (auto simp: column_values_Cons column_values_Nil split: option.splits)

lemma length_column_values:
  "length (column_values col) = length (filter (\<lambda>v. v \<noteq> None) col)"
  by (induction col) (auto simp: column_values_Cons column_values_Nil split: option.splits)

lemma sorted_above_bound:
  fixes xs :: "real list"
  assumes "sorted xs" and "lo < length xs" and "xs ! lo \<le> t"
  shows "length (filter (\<lambda>a. t < a) xs) \<le> length xs - Suc lo"
proof -
  have low: "\<forall>a \<in> set (take (Suc lo) xs). \<not> t < a"
  proof
    fix a assume "a \<in> set (take (Suc lo) xs)"
    then obtain i where i: "i < Suc lo" "i < length xs" "a = xs ! i"
      by (auto simp: in_set_conv_nth)
    then have "xs ! i \<le> xs ! lo"
      using assms(1,2) by (intro sorted_nth_mono) auto
    with i assms(3) show "\<not> t < a" by simp
  qed
  have "filter (\<lambda>a. t < a) xs =
      filter (\<lambda>a. t < a) (take (Suc lo) xs) @ filter (\<lambda>a. t < a) (drop (Suc lo) xs)"
    by (metis append_take_drop_id filter_append)
  also have "filter (\<lambda>a. t < a) (take (Suc lo) xs) = []"
    using low by (simp add: filter_empty_conv)
  finally have "length (filter (\<lambda>a. t < a) xs) = length (filter (\<lambda>a. t < a) (drop (Suc lo) xs))"
    by simp
  also have "\<dots> \<le> length (drop (Suc lo) xs)" by (rule length_filter_le)
  finally show ?thesis by simp
qed

lemma tenth_rounded_up:
  fixes k lo :: nat
  assumes "lo = nat \<lfloor>real k * (9 / 10)\<rfloor>"
  shows "10 * (k - lo) \<le> k + 9"
proof -
  define h where "h = real k * (9 / 10)"
  have h0: "0 \<le> h" by (simp add: h_def)
  have lo: "lo = nat \<lfloor>h\<rfloor>" using assms by (simp only: h_def)
  have "h < of_int \<lfloor>h\<rfloor> + 1" by linarith
  moreover have "real lo = of_int \<lfloor>h\<rfloor>" using h0 lo by simp
  ultimately have "h < real lo + 1" by linarith
  then have "real k * 9 < real (10 * lo + 10)" by (simp add: h_def)
  then have "real (k * 9) < real (10 * lo + 10)" by simp
  then have "k * 9 < 10 * lo + 10" by (simp only: of_nat_less_iff)
  then show ?thesis by linarith
qed

lemma quantile_lower_rank:
  assumes "quantile col q = Some t" and "0 \<le> q" and "q \<le> 1"
    and "lo = nat \<lfloor>real (length (column_values col) - 1) * q\<rfloor>"
  shows "lo < length (column_values col) \<and> sort (column_values col) ! lo \<le> t"
proof -
  define xs where "xs = sort (column_values col)"
  define h where "h = real (length xs - 1) * q"
  define hi where "hi = nat \<lceil>h\<rceil>"
  have len: "length xs = length (column_values col)" by (simp add: xs_def)
  have lo: "lo = nat \<lfloor>h\<rfloor>" using assms(4) by (simp only: h_def len)
  from assms(1) have ne: "xs \<noteq> []" and t: "t = xs ! lo + (h - real lo) * (xs ! hi - xs ! lo)"
    by (auto simp: quantile_def Let_def xs_def h_def lo hi_def split: if_splits)
  have h0: "0 \<le> h" using assms(2) by (simp add: h_def)
  have h1: "h \<le> real (length xs - 1)"
    using assms(2,3) by (simp add: h_def mult_left_le)
  have lo_le: "real lo \<le> h" using h0 by (simp add: lo)
  have lo_hi: "lo \<le> hi" unfolding lo hi_def
    by (rule nat_mono) (rule floor_le_ceiling)
  have hi_le: "hi \<le> length xs - 1" using h1 by (simp add: hi_def)
  then have hi_lt: "hi < length xs" using ne by (cases xs) auto
  have srt: "sorted xs" by (simp add: xs_def)
  have d: "xs ! lo \<le> xs ! hi" using srt lo_hi hi_lt by (simp add: sorted_nth_mono)
  have "0 \<le> (h - real lo) * (xs ! hi - xs ! lo)"
    using lo_le d by simp
  then have "xs ! lo \<le> t" using t by simp
  moreover have "lo < length xs" using lo_hi hi_lt by simp
  ultimately show ?thesis
    by (simp only: len) (simp only: xs_def)
qed

lemma above_threshold_bound:
  assumes "cagr_threshold col = Some t"
  shows "10 * length (filter (\<lambda>v. \<exists>a. v = Some a \<and> t < a) col) \<le>
    length (filter (\<lambda>v. v \<noteq> None) col) + 8"
proof (cases "column_values col = []")
  case True
  then have "length (filter (\<lambda>a. t < a) (column_values col)) = 0" by simp
  then show ?thesis by (simp add: length_filter_column_values)
next
  case False
  define m where "m = length (column_values col)"
  define lo where "lo = nat \<lfloor>real (m - 1) * (9 / 10)\<rfloor>"
  from False assms have q: "quantile col (9 / 10) = Some t"
    by (simp add: cagr_threshold_def)
  have "lo = nat \<lfloor>real (length (column_values col) - 1) * (9 / 10)\<rfloor>"
    by (simp only: lo_def m_def)
  from quantile_lower_rank [OF q _ _ this]
  have lo: "lo < m" and le: "sort (column_values col) ! lo \<le> t"
    by (simp_all add: m_def)
  have "length (filter (\<lambda>a. t < a) (column_values col)) =
      length (filter (\<lambda>a. t < a) (sort (column_values col)))"
    by (simp add: filter_sort)
  also have "\<dots> \<le> length (sort (column_values col)) - Suc lo"
    using lo le by (intro sorted_above_bound) (simp_all add: m_def)
  also have "\<dots> = (m - 1) - lo" by (simp add: m_def)
  finally have "10 * length (filter (\<lambda>a. t < a) (column_values col)) \<le> 10 * ((m - 1) - lo)"
    by simp
  also have "\<dots> \<le> (m - 1) + 9"
    using lo_def by (rule tenth_rounded_up)
  also have "\<dots> = m + 8" using lo by simp
  finally show ?thesis
    by (simp add: length_filter_column_values length_column_values m_def)
qed

lemma street_above_bound:
  "\<exists>t. cagr_threshold (map ss_avg_cagr (street_summary_records df growth_df)) = Some t \<and>
     10 * length (filter (\<lambda>r. ss_is_top_performer r = 1 \<and> ss_avg_cagr r \<noteq> Some t)
            (street_summary_records df growth_df))
       \<le> length (filter (\<lambda>r. ss_avg_cagr r \<noteq> None) (street_summary_records df growth_df)) + 8"
proof -
  let ?rows = "street_summary_records df growth_df"
  obtain t where t: "cagr_threshold (map ss_avg_cagr ?rows) = Some t"
    and f: "\<forall>r \<in> set ?rows.
        ss_is_top_performer r = (if \<exists>a. ss_avg_cagr r = Some a \<and> t \<le> a then 1 else 0)"
    using street_classified [of df growth_df] by blast
  have "filter (\<lambda>r. ss_is_top_performer r = 1 \<and> ss_avg_cagr r \<noteq> Some t) ?rows =
      filter (\<lambda>r. \<exists>a. ss_avg_cagr r = Some a \<and> t < a) ?rows"
    using f by (intro filter_cong refl) (auto split: if_splits)
  then have "length (filter (\<lambda>r. ss_is_top_performer r = 1 \<and> ss_avg_cagr r \<noteq> Some t) ?rows) =
      length (filter (\<lambda>v. \<exists>a. v = Some a \<and> t < a) (map ss_avg_cagr ?rows))"
    by (simp add: filter_map o_def)
  moreover have "length (filter (\<lambda>r. ss_avg_cagr r \<noteq> None) ?rows) =
      length (filter (\<lambda>v. v \<noteq> None) (map ss_avg_cagr ?rows))"
    by (simp add: filter_map o_def)
  ultimately show ?thesis
    using above_threshold_bound [OF t] t by auto
qed

lemma suburb_above_bound:
  "\<exists>t. cagr_threshold (map us_avg_cagr (suburb_summary_records df growth_df)) = Some t \<and>
     10 * length (filter (\<lambda>r. us_is_top_performer r = 1 \<and> us_avg_cagr r \<noteq> Some t)
            (suburb_summary_records df growth_df))
       \<le> length (filter (\<lambda>r. us_avg_cagr r \<noteq> None) (suburb_summary_records df growth_df)) + 8"
proof -
  let ?rows = "suburb_summary_records df growth_df"
  obtain t where t: "cagr_threshold (map us_avg_cagr ?rows) = Some t"
    and f: "\<forall>r \<in> set ?rows.
        us_is_top_performer r = (if \<exists>a. us_avg_cagr r = Some a \<and> t \<le> a then 1 else 0)"
    using suburb_classified [of df growth_df] by blast
  have "filter (\<lambda>r. us_is_top_performer r = 1 \<and> us_avg_cagr r \<noteq> Some t) ?rows =
      filter (\<lambda>r. \<exists>a. us_avg_cagr r = Some a \<and> t < a) ?rows"
    using f by (intro filter_cong refl) (auto split: if_splits)
  then have "length (filter (\<lambda>r. us_is_top_performer r = 1 \<and> us_avg_cagr r \<noteq> Some t) ?rows) =
      length (filter (\<lambda>v. \<exists>a. v = Some a \<and> t < a) (map us_avg_cagr ?rows))"
    by (simp add: filter_map o_def)
  moreover have "length (filter (\<lambda>r. us_avg_cagr r \<noteq> None) ?rows) =
      length (filter (\<lambda>v. v \<noteq> None) (map us_avg_cagr ?rows))"
    by (simp add: filter_map o_def)
  ultimately show ?thesis
    using above_threshold_bound [OF t] t by auto
qed

subsection \<open>Evaluation on the two street example\<close>

lemma powr_16_quarter: "(16::real) powr (1 / 4) = 2"
proof -
  have "(16::real) = 2 powr 4" by simp
  then have "(16::real) powr (1 / 4) = (2 powr 4) powr (1 / 4)" by simp
  also have "\<dots> = 2 powr (4 * (1 / 4))" by (rule powr_powr)
  finally show ?thesis by simp
qed

lemma cagr_16: "calculate_cagr 100000 1600000 4 = Inr (PyFloat 1, 15)"
  by (simp add: calculate_cagr_def cagr_try_def float_truediv_def float_pow_def
      raise_bind_def DBL_MAX_def powr_16_quarter)

lemmas eval_defs =
  dropna_def List.map_filter_def clean_row_def
  sort_values_def toordinal_def days_before_year_def days_before_month_def is_leap_def
  groupby_def group_keys_def group_rows_def property_key_def property_stat_of_def Let_def
  calculate_cagr_def cagr_try_def float_truediv_def float_pow_def raise_bind_def DBL_MAX_def
  DataFrame_def float_row_def db_property_records_def items_def PropertyGrowth_columns_def
  street_key_def suburb_key_def sale_street_key_def sale_suburb_key_def
  summary_frame_def mean_def street_summary_records_def suburb_summary_records_def
  top_performer_flags_def cagr_threshold_def quantile_def column_values_def

lemma two_street_property_level:
  "property_level (groupby property_key (sort_values (dropna two_street_sales))) =
     Inr [\<lparr>ps_property_id = ''P1'', cagr = PyFloat 0, total_growth = 1 / 10,
           years_held = 236 / 1461, last_sale_price = 550000, first_sale_price = 500000,
           last_sale_year = 2010, ps_street_name = ''High St'', ps_locality = ''Newtown'',
           ps_post_code = 2042\<rparr>,
          \<lparr>ps_property_id = ''P3'', cagr = PyFloat 1, total_growth = 15,
           years_held = 4, last_sale_price = 1600000, first_sale_price = 100000,
           last_sale_year = 2014, ps_street_name = ''Low Rd'', ps_locality = ''Newtown'',
           ps_post_code = 2042\<rparr>]"
  by (simp add: two_street_sales_def eval_defs powr_16_quarter)

lemma two_street_street_summary:
  "street_summary_records (sort_values (dropna two_street_sales)) two_street_growth_df =
     [\<lparr>ss_street_name = ''High St'', ss_suburb = ''Newtown'', ss_post_code = 2042,
       ss_unique_properties = 1, ss_total_sales = 2, ss_avg_cagr = Some 0,
       ss_is_top_performer = 0\<rparr>,
      \<lparr>ss_street_name = ''Low Rd'', ss_suburb = ''Newtown'', ss_post_code = 2042,
       ss_unique_properties = 1, ss_total_sales = 2, ss_avg_cagr = Some 1,
       ss_is_top_performer = 1\<rparr>]"
  by (simp add: two_street_sales_def two_street_growth_df_def eval_defs)

lemma two_street_suburb_summary:
  "suburb_summary_records (sort_values (dropna two_street_sales)) two_street_growth_df =
     [\<lparr>us_suburb = ''Newtown'', us_unique_properties = 2, us_total_sales = 4,
       us_avg_cagr = Some (1 / 2), us_is_top_performer = 1\<rparr>]"
  by (simp add: two_street_sales_def two_street_growth_df_def eval_defs)

lemma two_street_no_growth:
  "street_summary_records (sort_values (dropna two_street_sales)) [] =
     [\<lparr>ss_street_name = ''High St'', ss_suburb = ''Newtown'', ss_post_code = 2042,
       ss_unique_properties = 1, ss_total_sales = 2, ss_avg_cagr = None,
       ss_is_top_performer = 0\<rparr>,
      \<lparr>ss_street_name = ''Low Rd'', ss_suburb = ''Newtown'', ss_post_code = 2042,
       ss_unique_properties = 1, ss_total_sales = 2, ss_avg_cagr = None,
       ss_is_top_performer = 0\<rparr>]"
  by (simp add: two_street_sales_def eval_defs)

lemma two_street_rebuild:
  "street_summary (snd (calculate_growth_metrics two_street_sales previous_db)) =
     [\<lparr>ss_street_name = ''High St'', ss_suburb = ''Newtown'', ss_post_code = 2042,
       ss_unique_properties = 1, ss_total_sales = 2, ss_avg_cagr = Some 0,
       ss_is_top_performer = 0\<rparr>,
      \<lparr>ss_street_name = ''Low Rd'', ss_suburb = ''Newtown'', ss_post_code = 2042,
       ss_unique_properties = 1, ss_total_sales = 2, ss_avg_cagr = Some 1,
       ss_is_top_performer = 1\<rparr>]"
  by (simp add: calculate_growth_metrics_def two_street_sales_def eval_defs powr_16_quarter
      replace_chunked_eq replace_all_eq)

subsection \<open>The claims on the classification\<close>

text \<open>
  Claim C3. For the street summaries and, independently, for the suburb summaries: the
  threshold is a number; it is 0 when every average is null and otherwise the 0.9
  quantile of the averages that are not null; and a row is flagged with 1 exactly when
  its average is not null and at least the threshold, and with 0 otherwise.
\<close>

theorem top_performer_classification:
  "(\<exists>t. cagr_threshold (map ss_avg_cagr (street_summary_records df growth_df)) = Some t \<and>
     ((\<forall>r \<in> set (street_summary_records df growth_df). ss_avg_cagr r = None) \<longrightarrow> t = 0) \<and>
     ((\<exists>r \<in> set (street_summary_records df growth_df). ss_avg_cagr r \<noteq> None) \<longrightarrow>
        quantile (map ss_avg_cagr (street_summary_records df growth_df)) (9 / 10) = Some t) \<and>
     (\<forall>r \<in> set (street_summary_records df growth_df).
        ss_is_top_performer r = (if \<exists>a. ss_avg_cagr r = Some a \<and> t \<le> a then 1 else 0))) \<and>
   (\<exists>t. cagr_threshold (map us_avg_cagr (suburb_summary_records df growth_df)) = Some t \<and>
     ((\<forall>r \<in> set (suburb_summary_records df growth_df). us_avg_cagr r = None) \<longrightarrow> t = 0) \<and>
     ((\<exists>r \<in> set (suburb_summary_records df growth_df). us_avg_cagr r \<noteq> None) \<longrightarrow>
        quantile (map us_avg_cagr (suburb_summary_records df growth_df)) (9 / 10) = Some t) \<and>
     (\<forall>r \<in> set (suburb_summary_records df growth_df).
        us_is_top_performer r = (if \<exists>a. us_avg_cagr r = Some a \<and> t \<le> a then 1 else 0)))"
  using street_classified [of df growth_df] suburb_classified [of df growth_df]
  by (rule conjI)

theorem top_performer_classification_witness:
  "cagr_threshold (map ss_avg_cagr
      (street_summary_records (sort_values (dropna two_street_sales)) two_street_growth_df)) =
     Some (9 / 10) \<and>
   map ss_avg_cagr
      (street_summary_records (sort_values (dropna two_street_sales)) two_street_growth_df) =
     [Some 0, Some 1] \<and>
   map ss_is_top_performer
      (street_summary_records (sort_values (dropna two_street_sales)) two_street_growth_df) =
     [0, 1] \<and>
   map us_is_top_performer
      (suburb_summary_records (sort_values (dropna two_street_sales)) two_street_growth_df) =
     [1] \<and>
   cagr_threshold (map ss_avg_cagr
      (street_summary_records (sort_values (dropna two_street_sales)) [])) = Some 0 \<and>
   map ss_is_top_performer
      (street_summary_records (sort_values (dropna two_street_sales)) []) = [0, 0]"
  using top_performer_classification
    [of "sort_values (dropna two_street_sales)" two_street_growth_df]
    top_performer_classification [of "sort_values (dropna two_street_sales)" "[]"]
  by (simp add: two_street_street_summary two_street_suburb_summary two_street_no_growth
      cagr_threshold_def quantile_def column_values_def List.map_filter_def)

text \<open>
  Claim C4, as the code has it. In the street summaries and in the suburb summaries, the
  flagged rows whose average is not the threshold itself are at most a tenth, rounded up,
  of the rows whose average is not null: ten times their number is at most that number
  plus 8, and so at most the number of all rows plus 9. Rows whose average equals the
  threshold are flagged besides. A flagged row has an average that is not null and greater
  than the average of every unflagged row whose average is not null; and as soon as one
  average is not null, at least one row is flagged.
\<close>

theorem top_performer_share_bound:
  "((\<exists>t. cagr_threshold (map ss_avg_cagr (street_summary_records df growth_df)) = Some t \<and>
      10 * length (filter (\<lambda>r. ss_is_top_performer r = 1 \<and> ss_avg_cagr r \<noteq> Some t)
             (street_summary_records df growth_df))
        \<le> length (filter (\<lambda>r. ss_avg_cagr r \<noteq> None) (street_summary_records df growth_df)) + 8 \<and>
      10 * length (filter (\<lambda>r. ss_is_top_performer r = 1 \<and> ss_avg_cagr r \<noteq> Some t)
             (street_summary_records df growth_df))
        \<le> length (street_summary_records df growth_df) + 9) \<and>
    (\<forall>r \<in> set (street_summary_records df growth_df).
      \<forall>r' \<in> set (street_summary_records df growth_df).
        ss_is_top_performer r = 1 \<and> ss_is_top_performer r' = 0 \<and> ss_avg_cagr r' \<noteq> None \<longrightarrow>
        (\<exists>a b. ss_avg_cagr r = Some a \<and> ss_avg_cagr r' = Some b \<and> b < a)) \<and>
    ((\<exists>r \<in> set (street_summary_records df growth_df). ss_avg_cagr r \<noteq> None) \<longrightarrow>
      (\<exists>r \<in> set (street_summary_records df growth_df). ss_is_top_performer r = 1))) \<and>
   ((\<exists>t. cagr_threshold (map us_avg_cagr (suburb_summary_records df growth_df)) = Some t \<and>
      10 * length (filter (\<lambda>r. us_is_top_performer r = 1 \<and> us_avg_cagr r \<noteq> Some t)
             (suburb_summary_records df growth_df))
        \<le> length (filter (\<lambda>r. us_avg_cagr r \<noteq> None) (suburb_summary_records df growth_df)) + 8 \<and>
      10 * length (filter (\<lambda>r. us_is_top_performer r = 1 \<and> us_avg_cagr r \<noteq> Some t)
             (suburb_summary_records df growth_df))
        \<le> length (suburb_summary_records df growth_df) + 9) \<and>
    (\<forall>r \<in> set (suburb_summary_records df growth_df).
      \<forall>r' \<in> set (suburb_summary_records df growth_df).
        us_is_top_performer r = 1 \<and> us_is_top_performer r' = 0 \<and> us_avg_cagr r' \<noteq> None \<longrightarrow>
        (\<exists>a b. us_avg_cagr r = Some a \<and> us_avg_cagr r' = Some b \<and> b < a)) \<and>
    ((\<exists>r \<in> set (suburb_summary_records df growth_df). us_avg_cagr r \<noteq> None) \<longrightarrow>
      (\<exists>r \<in> set (suburb_summary_records df growth_df). us_is_top_performer r = 1)))"
proof -
  have len: "\<And>P (xs :: 'a list). length (filter P xs) + 8 \<le> length xs + 9"
    using length_filter_le [of _ _] by (simp add: le_SucI trans_le_add1)
  from street_above_bound [of df growth_df] obtain t
    where "cagr_threshold (map ss_avg_cagr (street_summary_records df growth_df)) = Some t"
      and "10 * length (filter (\<lambda>r. ss_is_top_performer r = 1 \<and> ss_avg_cagr r \<noteq> Some t)
             (street_summary_records df growth_df))
        \<le> length (filter (\<lambda>r. ss_avg_cagr r \<noteq> None) (street_summary_records df growth_df)) + 8"
    by blast
  moreover from this(2) len [of "\<lambda>r. ss_avg_cagr r \<noteq> None" "street_summary_records df growth_df"]
  have "10 * length (filter (\<lambda>r. ss_is_top_performer r = 1 \<and> ss_avg_cagr r \<noteq> Some t)
             (street_summary_records df growth_df))
        \<le> length (street_summary_records df growth_df) + 9"
    by (rule le_trans)
  ultimately have s: "\<exists>t. cagr_threshold (map ss_avg_cagr (street_summary_records df growth_df)) = Some t \<and>
      10 * length (filter (\<lambda>r. ss_is_top_performer r = 1 \<and> ss_avg_cagr r \<noteq> Some t)
             (street_summary_records df growth_df))
        \<le> length (filter (\<lambda>r. ss_avg_cagr r \<noteq> None) (street_summary_records df growth_df)) + 8 \<and>
      10 * length (filter (\<lambda>r. ss_is_top_performer r = 1 \<and> ss_avg_cagr r \<noteq> Some t)
             (street_summary_records df growth_df))
        \<le> length (street_summary_records df growth_df) + 9"
    by blast
  from suburb_above_bound [of df growth_df] obtain u
    where "cagr_threshold (map us_avg_cagr (suburb_summary_records df growth_df)) = Some u"
      and "10 * length (filter (\<lambda>r. us_is_top_performer r = 1 \<and> us_avg_cagr r \<noteq> Some u)
             (suburb_summary_records df growth_df))
        \<le> length (filter (\<lambda>r. us_avg_cagr r \<noteq> None) (suburb_summary_records df growth_df)) + 8"
    by blast
  moreover from this(2) len [of "\<lambda>r. us_avg_cagr r \<noteq> None" "suburb_summary_records df growth_df"]
  have "10 * length (filter (\<lambda>r. us_is_top_performer r = 1 \<and> us_avg_cagr r \<noteq> Some u)
             (suburb_summary_records df growth_df))
        \<le> length (suburb_summary_records df growth_df) + 9"
    by (rule le_trans)
  ultimately have u: "\<exists>t. cagr_threshold (map us_avg_cagr (suburb_summary_records df growth_df)) = Some t \<and>
      10 * length (filter (\<lambda>r. us_is_top_performer r = 1 \<and> us_avg_cagr r \<noteq> Some t)
             (suburb_summary_records df growth_df))
        \<le> length (filter (\<lambda>r. us_avg_cagr r \<noteq> None) (suburb_summary_records df growth_df)) + 8 \<and>
      10 * length (filter (\<lambda>r. us_is_top_performer r = 1 \<and> us_avg_cagr r \<noteq> Some t)
             (suburb_summary_records df growth_df))
        \<le> length (suburb_summary_records df growth_df) + 9"
    by blast
  from s u street_separated [of df growth_df] suburb_separated [of df growth_df]
  show ?thesis by (intro conjI) (erule conjunct1 conjunct2 | assumption)+
qed

theorem top_performer_share_bound_witness:
  "cagr_threshold (map ss_avg_cagr
      (street_summary_records (sort_values (dropna two_street_sales)) two_street_growth_df)) =
     Some (9 / 10) \<and>
   10 * length (filter (\<lambda>r. ss_is_top_performer r = 1 \<and> ss_avg_cagr r \<noteq> Some (9 / 10))
      (street_summary_records (sort_values (dropna two_street_sales)) two_street_growth_df))
     \<le> length (filter (\<lambda>r. ss_avg_cagr r \<noteq> None)
      (street_summary_records (sort_values (dropna two_street_sales)) two_street_growth_df)) + 8 \<and>
   length (filter (\<lambda>r. ss_is_top_performer r = 1 \<and> ss_avg_cagr r \<noteq> Some (9 / 10))
      (street_summary_records (sort_values (dropna two_street_sales)) two_street_growth_df)) = 1 \<and>
   length (filter (\<lambda>r. ss_avg_cagr r \<noteq> None)
      (street_summary_records (sort_values (dropna two_street_sales)) two_street_growth_df)) = 2 \<and>
   map (\<lambda>r. (ss_avg_cagr r, ss_is_top_performer r))
      (street_summary_records (sort_values (dropna two_street_sales)) two_street_growth_df) =
     [(Some 0, 0), (Some 1, 1)] \<and>
   map (\<lambda>r. (us_avg_cagr r, us_is_top_performer r))
      (suburb_summary_records (sort_values (dropna two_street_sales)) two_street_growth_df) =
     [(Some (1 / 2), 1)]"
proof -
  let ?rows = "street_summary_records (sort_values (dropna two_street_sales)) two_street_growth_df"
  have th: "cagr_threshold (map ss_avg_cagr ?rows) = Some (9 / 10)"
    by (simp add: two_street_street_summary cagr_threshold_def quantile_def column_values_def
        List.map_filter_def)
  from top_performer_share_bound [of "sort_values (dropna two_street_sales)" two_street_growth_df]
  obtain t where t: "cagr_threshold (map ss_avg_cagr ?rows) = Some t"
    and b: "10 * length (filter (\<lambda>r. ss_is_top_performer r = 1 \<and> ss_avg_cagr r \<noteq> Some t) ?rows)
        \<le> length (filter (\<lambda>r. ss_avg_cagr r \<noteq> None) ?rows) + 8"
    by blast
  from t th have "t = 9 / 10" by simp
  with b have bound: "10 * length (filter (\<lambda>r. ss_is_top_performer r = 1 \<and>
        ss_avg_cagr r \<noteq> Some (9 / 10)) ?rows)
      \<le> length (filter (\<lambda>r. ss_avg_cagr r \<noteq> None) ?rows) + 8"
    by simp
  have c1: "length (filter (\<lambda>r. ss_is_top_performer r = 1 \<and> ss_avg_cagr r \<noteq> Some (9 / 10))
      ?rows) = 1"
    by (simp add: two_street_street_summary)
  have c2: "length (filter (\<lambda>r. ss_avg_cagr r \<noteq> None) ?rows) = 2"
    by (simp add: two_street_street_summary)
  have c3: "map (\<lambda>r. (ss_avg_cagr r, ss_is_top_performer r)) ?rows = [(Some 0, 0), (Some 1, 1)]"
    by (simp add: two_street_street_summary)
  have c4: "map (\<lambda>r. (us_avg_cagr r, us_is_top_performer r))
      (suburb_summary_records (sort_values (dropna two_street_sales)) two_street_growth_df) =
     [(Some (1 / 2), 1)]"
    by (simp add: two_street_suburb_summary)
  from th bound c1 c2 c3 c4 show ?thesis by (intro conjI)
qed

text \<open>
  Claim C4, as stated, fails on the share of flagged rows: the rebuild over
  \<open>two_street_sales\<close> writes two street summaries and flags one of them, which is half
  of the rows and not at most a tenth.
\<close>

theorem top_performer_share_counterexample:
  "map ss_is_top_performer
      (street_summary (snd (calculate_growth_metrics two_street_sales previous_db))) = [0, 1] \<and>
   \<not> 10 * length (filter (\<lambda>r. ss_is_top_performer r = 1)
          (street_summary (snd (calculate_growth_metrics two_street_sales previous_db))))
       \<le> length (street_summary (snd (calculate_growth_metrics two_street_sales previous_db)))"
  by (simp add: two_street_rebuild)

section \<open>The property growth deriver\<close>

lemma property_level_Nil_sales:
  "property_level (groupby property_key (sort_values (dropna []))) = Inr []"
  by (simp add: dropna_def List.map_filter_def sort_values_def groupby_def group_keys_def)

lemma rebuild_success:
  assumes "property_level (groupby property_key (sort_values (dropna sales))) = Inr property_stats"
    and "DataFrame property_stats = Some growth_df"
    and "property_stats \<noteq> []"
  shows "calculate_growth_metrics sales db =
    (None, db\<lparr>property_growth := db_property_records property_stats,
               street_growth := street_records growth_df,
               suburb_growth := suburb_records growth_df,
               street_summary :=
                 street_summary_records (sort_values (dropna sales)) growth_df,
               suburb_summary :=
                 suburb_summary_records (sort_values (dropna sales)) growth_df\<rparr>)"
proof -
  have "sales \<noteq> []"
    using assms(1,3) property_level_Nil_sales by auto
  with assms show ?thesis
    by (simp add: calculate_growth_metrics_def Let_def replace_all_eq replace_chunked_eq)
qed

lemma db_property_records_rows:
  "db_property_records property_stats =
     map (\<lambda>p. [(''property_id'', PyStr (ps_property_id p)),
               (''cagr'', PyNum (cagr p)),
               (''total_growth'', PyNum (PyFloat (total_growth p))),
               (''years_held'', PyNum (PyFloat (years_held p))),
               (''last_sale_price'', PyNum (PyFloat (last_sale_price p))),
               (''first_sale_price'', PyNum (PyFloat (first_sale_price p)))]) property_stats"
  by (simp add: db_property_records_def items_def PropertyGrowth_columns_def)

lemma property_stat_of_fields:
  assumes "property_stat_of pid grp = Inr p"
  shows "ps_property_id p = pid \<and>
    first_sale_price p = row_purchase_price (hd grp) \<and>
    last_sale_price p = row_purchase_price (last grp) \<and>
    years_held p =
      real_of_int (toordinal (row_contract_date (last grp)) - toordinal (row_contract_date (hd grp)))
        / (36525 / 100) \<and>
    calculate_cagr (first_sale_price p) (last_sale_price p) (years_held p) =
      Inr (cagr p, total_growth p) \<and>
    last_sale_year p = sale_year (last grp) \<and>
    ps_street_name p = row_street_name (hd grp) \<and>
    ps_locality p = row_locality (hd grp) \<and>
    ps_post_code p = (case row_post_code (hd grp) of Some pc \<Rightarrow> pc | None \<Rightarrow> 0)"
  using assms
  by (auto simp: property_stat_of_def Let_def raise_bind_def split: sum.splits)

lemma property_level_entry:
  "property_level gs = Inr ps \<Longrightarrow> p \<in> set ps \<Longrightarrow>
   \<exists>pid grp. (pid, grp) \<in> set gs \<and> 2 \<le> length grp \<and> property_stat_of pid grp = Inr p"
proof (induction gs arbitrary: ps)
  case Nil
  then show ?case by simp
next
  case (Cons g gs)
  obtain pid grp where g: "g = (pid, grp)" by (cases g)
  show ?case
  proof (cases "length grp < 2")
    case True
    with Cons g show ?thesis by auto
  next
    case len: False
    with Cons.prems g obtain q qs where q: "property_stat_of pid grp = Inr q"
      and qs: "property_level gs = Inr qs" and ps: "ps = q # qs"
      by (auto simp: raise_bind_def split: sum.splits)
    show ?thesis
    proof (cases "p = q")
      case True
      from len have "2 \<le> length grp" by simp
      with q True g show ?thesis by fastforce
    next
      case False
      with ps Cons.prems(2) have "p \<in> set qs" by simp
      from Cons.IH [OF qs this] g show ?thesis by auto
    qed
  qed
qed

lemma those_map_Some: "those xs = Some ys \<Longrightarrow> xs = map Some ys"
proof (induction xs arbitrary: ys)
  case Nil
  then show ?case by simp
next
  case (Cons x xs)
  then show ?case by (auto split: option.splits)
qed

lemma DataFrame_rows:
  assumes "DataFrame property_stats = Some growth_df" and "q \<in> set growth_df"
  shows "\<exists>p \<in> set property_stats. float_row p = Some q"
proof -
  from assms(1) have "map float_row property_stats = map Some growth_df"
    by (simp add: DataFrame_def those_map_Some)
  then have "Some q \<in> set (map float_row property_stats)"
    using assms(2) by simp
  then show ?thesis by auto
qed

lemma float_row_fields:
  "float_row p = Some q \<Longrightarrow>
   ps_property_id q = ps_property_id p \<and> cagr p = PyFloat (cagr q) \<and>
   last_sale_year q = last_sale_year p \<and> ps_street_name q = ps_street_name p \<and>
   ps_locality q = ps_locality p \<and> ps_post_code q = ps_post_code p"
  by (auto simp: float_row_def split: py_number.splits)

lemma group_rows_sort_values_length:
  "length (group_rows property_key (sort_values df) pid) =
     length (filter (\<lambda>r. row_property_id r = pid) df)"
  by (simp add: group_rows_def property_key_def sort_values_def filter_sort)











lemma summary_frame_group:
  assumes "s \<in> set df" and "sale_key s = Some k"
  shows "\<exists>row \<in> set (summary_frame sale_key growth_key df growth_df).
     st_key row = k \<and> st_total_sales row = length (filter (\<lambda>s'. sale_key s' = Some k) df)"
proof -
  from assms have "(k, group_rows sale_key df k) \<in> set (groupby sale_key df)"
    by (auto simp: groupby_mem)
  then show ?thesis
    by (force simp: summary_frame_def Let_def group_rows_def)
qed

lemma street_summary_total:
  assumes "s \<in> set df" and "row_post_code s = Some pc"
  shows "\<exists>r \<in> set (street_summary_records df growth_df).
     ss_street_name r = row_street_name s \<and> ss_suburb r = row_locality s \<and>
     ss_post_code r = pc \<and>
     ss_total_sales r =
       length (filter (\<lambda>s'. row_street_name s' = row_street_name s \<and>
         row_locality s' = row_locality s \<and> row_post_code s' = Some pc) df)"
proof -
  let ?k = "(row_street_name s, row_locality s, pc)"
  have k: "sale_street_key s = Some ?k"
    using assms(2) by (simp add: sale_street_key_def)
  from summary_frame_group [of s df sale_street_key ?k street_key growth_df] assms(1) k
  obtain row where row: "row \<in> set (summary_frame sale_street_key street_key df growth_df)"
    "st_key row = ?k"
    "st_total_sales row = length (filter (\<lambda>s'. sale_street_key s' = Some ?k) df)"
    by blast
  have e: "(\<lambda>s'. sale_street_key s' = Some ?k) =
      (\<lambda>s'. row_street_name s' = row_street_name s \<and>
         row_locality s' = row_locality s \<and> row_post_code s' = Some pc)"
    by (auto simp: sale_street_key_def)
  from row show ?thesis
    unfolding e
    by (simp add: street_summary_records_def Let_def top_performer_flags_map image_iff)
       (force simp: split_beta)
qed

lemma suburb_summary_total:
  assumes "s \<in> set df"
  shows "\<exists>r \<in> set (suburb_summary_records df growth_df).
     us_suburb r = row_locality s \<and>
     us_total_sales r = length (filter (\<lambda>s'. row_locality s' = row_locality s) df)"
proof -
  have k: "sale_suburb_key s = Some (row_locality s)"
    by (simp add: sale_suburb_key_def)
  from summary_frame_group [of s df sale_suburb_key "row_locality s" suburb_key growth_df]
    assms(1) k
  obtain row where row: "row \<in> set (summary_frame sale_suburb_key suburb_key df growth_df)"
    "st_key row = row_locality s"
    "st_total_sales row = length (filter (\<lambda>s'. sale_suburb_key s' = Some (row_locality s)) df)"
    by blast
  from row show ?thesis
    by (simp add: suburb_summary_records_def Let_def top_performer_flags_map image_iff
        sale_suburb_key_def) force
qed

lemma length_filter_sort_values:
  "length (filter P (sort_values df)) = length (filter P df)"
  by (simp add: sort_values_def filter_sort)

lemma set_sort_values: "set (sort_values df) = set df"
  by (simp add: sort_values_def)

lemma few_sales_no_stat:
  assumes "property_level (groupby property_key (sort_values (dropna sales))) = Inr property_stats"
    and "length (filter (\<lambda>r. row_property_id r = pid) (dropna sales)) < 2"
  shows "\<forall>p \<in> set property_stats. ps_property_id p \<noteq> pid"
proof
  fix p assume "p \<in> set property_stats"
  from property_level_entry [OF assms(1) this] obtain pid' grp
    where g: "(pid', grp) \<in> set (groupby property_key (sort_values (dropna sales)))"
      and len: "2 \<le> length grp" and p: "property_stat_of pid' grp = Inr p"
    by blast
  from g have "grp = group_rows property_key (sort_values (dropna sales)) pid'"
    by (simp add: groupby_mem)
  then have "length grp = length (filter (\<lambda>r. row_property_id r = pid') (dropna sales))"
    by (simp add: group_rows_sort_values_length)
  with len assms(2) have "pid' \<noteq> pid" by auto
  moreover from p have "ps_property_id p = pid'" by (simp add: property_stat_of_fields)
  ultimately show "ps_property_id p \<noteq> pid" by simp
qed

lemma few_sales_no_growth_row:
  assumes "property_level (groupby property_key (sort_values (dropna sales))) = Inr property_stats"
    and "DataFrame property_stats = Some growth_df"
    and "length (filter (\<lambda>r. row_property_id r = pid) (dropna sales)) < 2"
  shows "\<forall>q \<in> set growth_df. ps_property_id q \<noteq> pid"
proof
  fix q assume "q \<in> set growth_df"
  from DataFrame_rows [OF assms(2) this] obtain p
    where p: "p \<in> set property_stats" "float_row p = Some q" by blast
  from float_row_fields [OF p(2)] have "ps_property_id q = ps_property_id p" by simp
  with few_sales_no_stat [OF assms(1,3)] p(1) show "ps_property_id q \<noteq> pid"
    by simp
qed





lemma two_street_frame:
  "DataFrame
     [\<lparr>ps_property_id = ''P1'', cagr = PyFloat 0, total_growth = 1 / 10,
       years_held = 236 / 1461, last_sale_price = 550000, first_sale_price = 500000,
       last_sale_year = 2010, ps_street_name = ''High St'', ps_locality = ''Newtown'',
       ps_post_code = 2042\<rparr>,
      \<lparr>ps_property_id = ''P3'', cagr = PyFloat 1, total_growth = 15,
       years_held = 4, last_sale_price = 1600000, first_sale_price = 100000,
       last_sale_year = 2014, ps_street_name = ''Low Rd'', ps_locality = ''Newtown'',
       ps_post_code = 2042\<rparr>] = Some two_street_growth_df"
  by (simp add: DataFrame_def float_row_def two_street_growth_df_def)

text \<open>
  Claim C6, as the code has it. After a rebuild that got past the property level, the
  rows of \<open>property_growth\<close> are the entries of \<open>property_stats\<close> cut down to the six
  columns of the table: property_id, cagr, total_growth, years_held, last_sale_price and
  first_sale_price. The last sale year and the street, locality and post code of the
  earliest sale (post code 0 when null) are attributes of the entry in memory only.
\<close>

theorem property_growth_persisted_columns:
  "(sales \<noteq> [] \<and>
    property_level (groupby property_key (sort_values (dropna sales))) = Inr property_stats \<and>
    DataFrame property_stats = Some growth_df \<longrightarrow>
      property_growth (snd (calculate_growth_metrics sales db)) =
        map (\<lambda>p. [(''property_id'', PyStr (ps_property_id p)),
                  (''cagr'', PyNum (cagr p)),
                  (''total_growth'', PyNum (PyFloat (total_growth p))),
                  (''years_held'', PyNum (PyFloat (years_held p))),
                  (''last_sale_price'', PyNum (PyFloat (last_sale_price p))),
                  (''first_sale_price'', PyNum (PyFloat (first_sale_price p)))])
          property_stats) \<and>
   (property_stat_of pid grp = Inr p \<longrightarrow>
      ps_property_id p = pid \<and>
      first_sale_price p = row_purchase_price (hd grp) \<and>
      last_sale_price p = row_purchase_price (last grp) \<and>
      years_held p =
        real_of_int (toordinal (row_contract_date (last grp)) -
          toordinal (row_contract_date (hd grp))) / (36525 / 100) \<and>
      calculate_cagr (first_sale_price p) (last_sale_price p) (years_held p) =
        Inr (cagr p, total_growth p) \<and>
      last_sale_year p = sale_year (last grp) \<and>
      ps_street_name p = row_street_name (hd grp) \<and>
      ps_locality p = row_locality (hd grp) \<and>
      ps_post_code p = (case row_post_code (hd grp) of Some pc \<Rightarrow> pc | None \<Rightarrow> 0))"
proof -
  have "sales \<noteq> [] \<and>
    property_level (groupby property_key (sort_values (dropna sales))) = Inr property_stats \<and>
    DataFrame property_stats = Some growth_df \<longrightarrow>
      property_growth (snd (calculate_growth_metrics sales db)) =
        db_property_records property_stats"
    by (simp add: calculate_growth_metrics_def Let_def replace_all_eq)
  then show ?thesis
    using property_stat_of_fields [of pid grp p]
    by (simp only: db_property_records_rows) blast
qed

lemma two_street_property_growth:
  "property_growth (snd (calculate_growth_metrics two_street_sales previous_db)) =
     [[(''property_id'', PyStr ''P1''), (''cagr'', PyNum (PyFloat 0)),
       (''total_growth'', PyNum (PyFloat (1 / 10))),
       (''years_held'', PyNum (PyFloat (236 / 1461))),
       (''last_sale_price'', PyNum (PyFloat 550000)),
       (''first_sale_price'', PyNum (PyFloat 500000))],
      [(''property_id'', PyStr ''P3''), (''cagr'', PyNum (PyFloat 1)),
       (''total_growth'', PyNum (PyFloat 15)),
       (''years_held'', PyNum (PyFloat 4)),
       (''last_sale_price'', PyNum (PyFloat 1600000)),
       (''first_sale_price'', PyNum (PyFloat 100000))]]"
  by (simp add: calculate_growth_metrics_def two_street_sales_def eval_defs powr_16_quarter
      replace_chunked_eq replace_all_eq)

theorem property_growth_persisted_columns_witness:
  "two_street_sales \<noteq> [] \<and>
   DataFrame
     [\<lparr>ps_property_id = ''P1'', cagr = PyFloat 0, total_growth = 1 / 10,
       years_held = 236 / 1461, last_sale_price = 550000, first_sale_price = 500000,
       last_sale_year = 2010, ps_street_name = ''High St'', ps_locality = ''Newtown'',
       ps_post_code = 2042\<rparr>,
      \<lparr>ps_property_id = ''P3'', cagr = PyFloat 1, total_growth = 15,
       years_held = 4, last_sale_price = 1600000, first_sale_price = 100000,
       last_sale_year = 2014, ps_street_name = ''Low Rd'', ps_locality = ''Newtown'',
       ps_post_code = 2042\<rparr>] = Some two_street_growth_df \<and>
   property_growth (snd (calculate_growth_metrics two_street_sales previous_db)) =
     [[(''property_id'', PyStr ''P1''), (''cagr'', PyNum (PyFloat 0)),
       (''total_growth'', PyNum (PyFloat (1 / 10))),
       (''years_held'', PyNum (PyFloat (236 / 1461))),
       (''last_sale_price'', PyNum (PyFloat 550000)),
       (''first_sale_price'', PyNum (PyFloat 500000))],
      [(''property_id'', PyStr ''P3''), (''cagr'', PyNum (PyFloat 1)),
       (''total_growth'', PyNum (PyFloat 15)),
       (''years_held'', PyNum (PyFloat 4)),
       (''last_sale_price'', PyNum (PyFloat 1600000)),
       (''first_sale_price'', PyNum (PyFloat 100000))]]"
proof -
  have ne: "two_street_sales \<noteq> []"
    by (simp add: two_street_sales_def)
  show ?thesis
    using property_growth_persisted_columns
      [of two_street_sales _ two_street_growth_df previous_db]
      ne two_street_property_level two_street_frame
    by simp
qed

text \<open>
  Claim C6, as stated, fails: the rows that the rebuild over \<open>two_street_sales\<close> writes
  to \<open>property_growth\<close> have the six columns of the table and neither a last sale year
  nor a street, suburb or post code, under the names of the dictionary or of the tables.
\<close>

theorem property_growth_columns_counterexample:
  "map (map fst) (property_growth (snd (calculate_growth_metrics two_street_sales previous_db))) =
     [[''property_id'', ''cagr'', ''total_growth'', ''years_held'', ''last_sale_price'',
       ''first_sale_price''],
      [''property_id'', ''cagr'', ''total_growth'', ''years_held'', ''last_sale_price'',
       ''first_sale_price'']] \<and>
   map (\<lambda>row. map (map_of row)
          [''last_sale_year'', ''property_street_name'', ''property_locality'',
           ''property_post_code'', ''street_name'', ''suburb'', ''post_code'', ''postcode''])
     (property_growth (snd (calculate_growth_metrics two_street_sales previous_db))) =
     [[None, None, None, None, None, None, None, None],
      [None, None, None, None, None, None, None, None]]"
  by (simp add: two_street_property_growth)

section \<open>Properties with fewer than two sales\<close>

lemma group_rows_active_subset:
  "set (group_rows key (year_active_df growth_df y) k) \<subseteq> set growth_df"
  by (auto simp: group_rows_def year_active_df_def)

lemma db_property_records_ids:
  "row \<in> set (db_property_records property_stats) \<Longrightarrow>
   \<exists>p \<in> set property_stats. map_of row ''property_id'' = Some (PyStr (ps_property_id p))"
  by (auto simp: db_property_records_rows)

text \<open>
  What the code does for a property with fewer than two rows left after \<open>dropna\<close>,
  when the rebuild reaches the summaries: the property has no entry in
  \<open>property_stats\<close>, no row in \<open>property_growth\<close> and no row in the growth frame,
  from which alone the per-year street and suburb tables are computed, so it is in none
  of their groups. Each of its rows left after \<open>dropna\<close> is counted in the
  \<open>total_sales\<close> of its suburb summary and, when its post code is not null, in the
  \<open>total_sales\<close> of its street summary.
\<close>

lemma few_sales_excluded_but_counted:
  assumes "property_level (groupby property_key (sort_values (dropna sales))) = Inr property_stats"
    and "DataFrame property_stats = Some growth_df"
    and "property_stats \<noteq> []"
    and "length (filter (\<lambda>r. row_property_id r = pid) (dropna sales)) < 2"
  shows "(\<forall>p \<in> set property_stats. ps_property_id p \<noteq> pid) \<and>
    (\<forall>row \<in> set (property_growth (snd (calculate_growth_metrics sales db))).
       map_of row ''property_id'' \<noteq> Some (PyStr pid)) \<and>
    street_growth (snd (calculate_growth_metrics sales db)) = street_records growth_df \<and>
    suburb_growth (snd (calculate_growth_metrics sales db)) = suburb_records growth_df \<and>
    (\<forall>q \<in> set growth_df. ps_property_id q \<noteq> pid) \<and>
    (\<forall>y k. \<forall>q \<in> set (group_rows street_key (year_active_df growth_df y) k).
       ps_property_id q \<noteq> pid) \<and>
    (\<forall>y k. \<forall>q \<in> set (group_rows suburb_key (year_active_df growth_df y) k).
       ps_property_id q \<noteq> pid) \<and>
    (\<forall>s \<in> set (dropna sales). row_property_id s = pid \<longrightarrow>
       (\<exists>r \<in> set (suburb_summary (snd (calculate_growth_metrics sales db))).
          us_suburb r = row_locality s \<and>
          us_total_sales r =
            length (filter (\<lambda>s'. row_locality s' = row_locality s) (dropna sales))) \<and>
       (\<forall>pc. row_post_code s = Some pc \<longrightarrow>
          (\<exists>r \<in> set (street_summary (snd (calculate_growth_metrics sales db))).
             ss_street_name r = row_street_name s \<and> ss_suburb r = row_locality s \<and>
             ss_post_code r = pc \<and>
             ss_total_sales r =
               length (filter (\<lambda>s'. row_street_name s' = row_street_name s \<and>
                 row_locality s' = row_locality s \<and> row_post_code s' = Some pc)
                 (dropna sales)))))"
proof -
  let ?db = "snd (calculate_growth_metrics sales db)"
  let ?df = "sort_values (dropna sales)"
  note ok = rebuild_success [OF assms(1-3), of db]
  have stats: "\<forall>p \<in> set property_stats. ps_property_id p \<noteq> pid"
    by (rule few_sales_no_stat [OF assms(1,4)])
  have growth: "\<forall>q \<in> set growth_df. ps_property_id q \<noteq> pid"
    by (rule few_sales_no_growth_row [OF assms(1,2,4)])
  have pg: "\<forall>row \<in> set (property_growth ?db). map_of row ''property_id'' \<noteq> Some (PyStr pid)"
  proof
    fix row assume "row \<in> set (property_growth ?db)"
    then have "row \<in> set (db_property_records property_stats)" by (simp add: ok)
    from db_property_records_ids [OF this] stats
    show "map_of row ''property_id'' \<noteq> Some (PyStr pid)" by auto
  qed
  have sg: "street_growth ?db = street_records growth_df"
    and ug: "suburb_growth ?db = suburb_records growth_df"
    by (simp_all add: ok)
  have st: "\<forall>y k. \<forall>q \<in> set (group_rows street_key (year_active_df growth_df y) k).
       ps_property_id q \<noteq> pid"
    using growth group_rows_active_subset [of street_key growth_df] by blast
  have su: "\<forall>y k. \<forall>q \<in> set (group_rows suburb_key (year_active_df growth_df y) k).
       ps_property_id q \<noteq> pid"
    using growth group_rows_active_subset [of suburb_key growth_df] by blast
  have counted: "\<forall>s \<in> set (dropna sales). row_property_id s = pid \<longrightarrow>
       (\<exists>r \<in> set (suburb_summary ?db).
          us_suburb r = row_locality s \<and>
          us_total_sales r =
            length (filter (\<lambda>s'. row_locality s' = row_locality s) (dropna sales))) \<and>
       (\<forall>pc. row_post_code s = Some pc \<longrightarrow>
          (\<exists>r \<in> set (street_summary ?db).
             ss_street_name r = row_street_name s \<and> ss_suburb r = row_locality s \<and>
             ss_post_code r = pc \<and>
             ss_total_sales r =
               length (filter (\<lambda>s'. row_street_name s' = row_street_name s \<and>
                 row_locality s' = row_locality s \<and> row_post_code s' = Some pc)
                 (dropna sales))))"
  proof (intro ballI impI conjI allI)
    fix s assume s: "s \<in> set (dropna sales)"
    then have m: "s \<in> set ?df" by (simp add: set_sort_values)
    from suburb_summary_total [OF m, of growth_df]
    show "\<exists>r \<in> set (suburb_summary ?db).
          us_suburb r = row_locality s \<and>
          us_total_sales r =
            length (filter (\<lambda>s'. row_locality s' = row_locality s) (dropna sales))"
      by (simp add: ok length_filter_sort_values)
    fix pc assume "row_post_code s = Some pc"
    from street_summary_total [OF m this, of growth_df]
    show "\<exists>r \<in> set (street_summary ?db).
             ss_street_name r = row_street_name s \<and> ss_suburb r = row_locality s \<and>
             ss_post_code r = pc \<and>
             ss_total_sales r =
               length (filter (\<lambda>s'. row_street_name s' = row_street_name s \<and>
                 row_locality s' = row_locality s \<and> row_post_code s' = Some pc)
                 (dropna sales))"
      by (simp add: ok length_filter_sort_values)
  qed
  from stats pg sg ug growth st su counted show ?thesis by (intro conjI)
qed


lemma mixed_property_level:
  "property_level (groupby property_key (sort_values (dropna mixed_sales))) =
     Inr [\<lparr>ps_property_id = ''P1'', cagr = PyFloat 0, total_growth = 1 / 10,
           years_held = 236 / 1461, last_sale_price = 550000, first_sale_price = 500000,
           last_sale_year = 2010, ps_street_name = ''High St'', ps_locality = ''Newtown'',
           ps_post_code = 2042\<rparr>,
          \<lparr>ps_property_id = ''P3'', cagr = PyFloat 1, total_growth = 15,
           years_held = 4, last_sale_price = 1600000, first_sale_price = 100000,
           last_sale_year = 2014, ps_street_name = ''Low Rd'', ps_locality = ''Newtown'',
           ps_post_code = 2042\<rparr>]"
  by (simp add: mixed_sales_def two_street_sales_def eval_defs powr_16_quarter)

lemma mixed_summaries:
  "map (\<lambda>r. (ss_street_name r, ss_total_sales r))
      (street_summary (snd (calculate_growth_metrics mixed_sales previous_db))) =
     [(''High St'', 2), (''Low Rd'', 3)] \<and>
   map (\<lambda>r. (us_suburb r, us_total_sales r))
      (suburb_summary (snd (calculate_growth_metrics mixed_sales previous_db))) =
     [(''Newtown'', 5)] \<and>
   map (\<lambda>row. map_of row ''property_id'')
      (property_growth (snd (calculate_growth_metrics mixed_sales previous_db))) =
     [Some (PyStr ''P1''), Some (PyStr ''P3'')]"
  by (simp add: calculate_growth_metrics_def mixed_sales_def two_street_sales_def eval_defs
      powr_16_quarter replace_chunked_eq replace_all_eq)

lemma mixed_sales_example:
  "length (filter (\<lambda>r. row_property_id r = ''P4'') (dropna mixed_sales)) = 1 \<and>
   map ps_property_id two_street_growth_df = [''P1'', ''P3''] \<and>
   street_growth (snd (calculate_growth_metrics mixed_sales previous_db)) =
     street_records two_street_growth_df \<and>
   suburb_growth (snd (calculate_growth_metrics mixed_sales previous_db)) =
     suburb_records two_street_growth_df \<and>
   map (\<lambda>row. map_of row ''property_id'')
      (property_growth (snd (calculate_growth_metrics mixed_sales previous_db))) =
     [Some (PyStr ''P1''), Some (PyStr ''P3'')] \<and>
   map (\<lambda>r. (ss_street_name r, ss_total_sales r))
      (street_summary (snd (calculate_growth_metrics mixed_sales previous_db))) =
     [(''High St'', 2), (''Low Rd'', 3)] \<and>
   map (\<lambda>r. (us_suburb r, us_total_sales r))
      (suburb_summary (snd (calculate_growth_metrics mixed_sales previous_db))) =
     [(''Newtown'', 5)]"
proof -
  have few: "length (filter (\<lambda>r. row_property_id r = ''P4'') (dropna mixed_sales)) = 1"
    by (simp add: mixed_sales_def two_street_sales_def dropna_def List.map_filter_def
        clean_row_def)
  then have lt: "length (filter (\<lambda>r. row_property_id r = ''P4'') (dropna mixed_sales)) < 2"
    by simp
  have ids: "map ps_property_id two_street_growth_df = [''P1'', ''P3'']"
    by (simp add: two_street_growth_df_def)
  note t = few_sales_excluded_but_counted
    [OF mixed_property_level two_street_frame _ lt, of previous_db, simplified]
  from t have sg: "street_growth (snd (calculate_growth_metrics mixed_sales previous_db)) =
     street_records two_street_growth_df"
    by blast
  from t have ug: "suburb_growth (snd (calculate_growth_metrics mixed_sales previous_db)) =
     suburb_records two_street_growth_df"
    by blast
  from few ids sg ug mixed_summaries show ?thesis by blast
qed

lemma example_summaries:
  "map (\<lambda>r. (ss_street_name r, ss_total_sales r))
      (street_summary (snd (calculate_growth_metrics example_sales previous_db))) =
     [(''High St'', 2)] \<and>
   map (\<lambda>r. (us_suburb r, us_total_sales r))
      (suburb_summary (snd (calculate_growth_metrics example_sales previous_db))) =
     [(''Newtown'', 2)]"
  by (simp add: calculate_growth_metrics_def example_sales_def eval_defs
      replace_chunked_eq replace_all_eq)

lemma null_post_code_summaries:
  "map (\<lambda>r. (ss_street_name r, ss_total_sales r))
      (street_summary (snd (calculate_growth_metrics null_post_code_sales previous_db))) =
     [(''High St'', 2), (''Low Rd'', 2)] \<and>
   map (\<lambda>r. (us_suburb r, us_total_sales r))
      (suburb_summary (snd (calculate_growth_metrics null_post_code_sales previous_db))) =
     [(''Newtown'', 5)]"
  by (simp add: calculate_growth_metrics_def null_post_code_sales_def two_street_sales_def
      eval_defs powr_16_quarter replace_chunked_eq replace_all_eq)

text \<open>
  Claim C8 on the code. The claim asks that every raw sale of a property with fewer than
  two qualifying sales be counted in \<open>total_sales\<close>. Property P2 of \<open>example_sales\<close>
  has one sale, without a price: the street and the suburb have three sales in the table,
  and both summaries count two, because the summaries group the frame that \<open>dropna\<close>
  has cut. Property P4 of \<open>null_post_code_sales\<close> has one sale, with a price and a date
  and without a post code: the suburb summary counts it, five sales, and the summary of
  its street does not, two sales of three.
\<close>

theorem dropped_sale_not_counted:
  "length (filter (\<lambda>s. property_id s = ''P2'') example_sales) = 1 \<and>
   length (filter (\<lambda>r. row_property_id r = ''P2'') (dropna example_sales)) = 0 \<and>
   length (filter (\<lambda>s. property_street_name s = ''High St'' \<and>
      property_locality s = ''Newtown'') example_sales) = 3 \<and>
   map (\<lambda>r. (ss_street_name r, ss_total_sales r))
      (street_summary (snd (calculate_growth_metrics example_sales previous_db))) =
     [(''High St'', 2)] \<and>
   map (\<lambda>r. (us_suburb r, us_total_sales r))
      (suburb_summary (snd (calculate_growth_metrics example_sales previous_db))) =
     [(''Newtown'', 2)] \<and>
   length (filter (\<lambda>r. row_property_id r = ''P4'') (dropna null_post_code_sales)) = 1 \<and>
   length (filter (\<lambda>s. property_street_name s = ''Low Rd'' \<and>
      property_locality s = ''Newtown'') null_post_code_sales) = 3 \<and>
   map (\<lambda>r. (ss_street_name r, ss_total_sales r))
      (street_summary (snd (calculate_growth_metrics null_post_code_sales previous_db))) =
     [(''High St'', 2), (''Low Rd'', 2)] \<and>
   map (\<lambda>r. (us_suburb r, us_total_sales r))
      (suburb_summary (snd (calculate_growth_metrics null_post_code_sales previous_db))) =
     [(''Newtown'', 5)]"
proof -
  have e: "length (filter (\<lambda>s. property_id s = ''P2'') example_sales) = 1 \<and>
   length (filter (\<lambda>r. row_property_id r = ''P2'') (dropna example_sales)) = 0 \<and>
   length (filter (\<lambda>s. property_street_name s = ''High St'' \<and>
      property_locality s = ''Newtown'') example_sales) = 3"
    by (simp add: example_sales_def dropna_def List.map_filter_def clean_row_def)
  have n: "length (filter (\<lambda>r. row_property_id r = ''P4'') (dropna null_post_code_sales)) = 1 \<and>
   length (filter (\<lambda>s. property_street_name s = ''Low Rd'' \<and>
      property_locality s = ''Newtown'') null_post_code_sales) = 3"
    by (simp add: null_post_code_sales_def two_street_sales_def dropna_def
        List.map_filter_def clean_row_def)
  from e n example_summaries null_post_code_summaries show ?thesis by blast
qed

end
